theory Spec2Isabelle
  imports Main
begin

section \<open>Python primitives used by the analyzer\<close>

text \<open>
  Strings are lists of characters, one \<^typ>\<open>char\<close> per code point below 256.
  The faults a run can raise on a loaded configuration are values here: \<open>IndexError\<close>
  from a subscript out of range, and what writing to standard output raises, such as
  \<open>UnicodeEncodeError\<close> for a character the stream cannot encode, \<open>OSError\<close> for a
  broken pipe and \<open>ValueError\<close> for a closed stream.
\<close>

datatype py_error = IndexError | UnicodeEncodeError | OSError | ValueError

definition py_index :: "'a list \<Rightarrow> nat \<Rightarrow> py_error + 'a" where
  "py_index xs i = (if i < length xs then Inr (xs ! i) else Inl IndexError)"

definition bind_err :: "py_error + 'a \<Rightarrow> ('a \<Rightarrow> py_error + 'b) \<Rightarrow> py_error + 'b" where
  "bind_err m f = (case m of Inl e \<Rightarrow> Inl e | Inr x \<Rightarrow> f x)"

text \<open>
  Standard output is the process's: \<open>out s\<close> is the outcome of \<open>sys.stdout.write(s)\<close>.
  \<open>print(s)\<close> writes \<open>s\<close> and then the line end, and raises what either write raises.
\<close>

type_synonym stdout = "string \<Rightarrow> py_error + unit"

definition py_print :: "stdout \<Rightarrow> string \<Rightarrow> py_error + unit" where
  "py_print out s = bind_err (out s) (\<lambda>_. out [CHR 0x0A])"

text \<open>\<open>s.split(sep)\<close> for a one-character separator: never an empty list.\<close>

fun str_split :: "string \<Rightarrow> char \<Rightarrow> string list" where
  "str_split [] sep = [[]]"
| "str_split (c # cs) sep =
     (if c = sep then [] # str_split cs sep
      else (case str_split cs sep of
              [] \<Rightarrow> [[c]]
            | p # ps \<Rightarrow> (c # p) # ps))"

text \<open>
  The characters \<open>str.strip()\<close> removes, among the code points below 256:
  TAB, LF, VT, FF, CR, FS, GS, RS, US, space, NEL and the no-break space.
\<close>

definition whitespace :: "char list" where
  "whitespace =
     [CHR 0x09, CHR 0x0A, CHR 0x0B, CHR 0x0C, CHR 0x0D,
      CHR 0x1C, CHR 0x1D, CHR 0x1E, CHR 0x1F, CHR 0x20, CHR 0x85, CHR 0xA0]"

definition is_space :: "char \<Rightarrow> bool" where
  "is_space c = (c \<in> set whitespace)"

definition str_strip :: "string \<Rightarrow> string" where
  "str_strip s = rev (dropWhile is_space (rev (dropWhile is_space s)))"

definition str_startswith :: "string \<Rightarrow> string \<Rightarrow> bool" where
  "str_startswith s p = (take (length p) s = p)"

definition str_endswith :: "string \<Rightarrow> string \<Rightarrow> bool" where
  "str_endswith s p = (length p \<le> length s \<and> drop (length s - length p) s = p)"

text \<open>\<open>sep.join(xs)\<close>, the inverse the specification uses to rebuild a document.\<close>

fun str_join :: "char \<Rightarrow> string list \<Rightarrow> string" where
  "str_join sep [] = []"
| "str_join sep [x] = x"
| "str_join sep (x # y # ys) = x @ sep # str_join sep (y # ys)"

text \<open>\<open>str(n)\<close> for a length: the decimal digits.\<close>

definition digit_char :: "nat \<Rightarrow> char" where
  "digit_char d = ''0123456789'' ! d"

fun str_nat :: "nat \<Rightarrow> string" where
  "str_nat n = (if n < 10 then [digit_char n] else str_nat (n div 10) @ [digit_char (n mod 10)])"

section \<open>Data model\<close>

datatype Severity = ERROR | WARNING | INFO

record ValidationResult =
  severity :: Severity
  code :: string
  message :: string
  segment :: "string option"
  line_number :: "int option"
  context_dict :: "(string \<times> string) list"

record AnalysisReport =
  file_path :: string
  tr3_version :: string
  is_valid :: bool
  error_count :: int
  warning_count :: int
  info_count :: int
  results :: "ValidationResult list"
  query_method :: "string option"
  segments_found :: "string list"

text \<open>
  The loaded configuration: \<open>config['tr3Version']\<close>,
  \<open>config['validationRules']['validateEnvelopes']\<close>,
  \<open>config['qreRequirements']['requiredSegments']\<close>,
  \<open>config['qreRequirements']['minimalDataPrinciple']\<close> and
  \<open>config['errorHandling']['failOnWarnings']\<close>.
\<close>

record Config =
  tr3Version :: string
  validateEnvelopes :: bool
  requiredSegments :: "string list"
  minimalDataPrinciple :: bool
  failOnWarnings :: bool

text \<open>The attributes of the analyzer object (\<open>self\<close>).\<close>

record Analyzer =
  self_config :: Config
  self_results :: "ValidationResult list"
  self_segments_found :: "string list"
  self_query_method :: "string option"

definition mk_result :: "Severity \<Rightarrow> string \<Rightarrow> string \<Rightarrow> string option \<Rightarrow> ValidationResult" where
  "mk_result sev c m seg =
     \<lparr>severity = sev, code = c, message = m, segment = seg, line_number = None, context_dict = []\<rparr>"

definition append_result :: "Analyzer \<Rightarrow> ValidationResult \<Rightarrow> Analyzer" where
  "append_result self r = self\<lparr>self_results := self_results self @ [r]\<rparr>"

section \<open>Segment extraction (\<open>analyze_file\<close>, lines 84 to 91)\<close>

text \<open>
  \<open>segments = content.split('~')\<close> and
  \<open>segments = [s.strip() for s in segments if s.strip()]\<close>.
\<close>

definition parse_segments :: "string \<Rightarrow> string list" where
  "parse_segments content =
     map str_strip (filter (\<lambda>s. str_strip s \<noteq> []) (str_split content (CHR ''~'')))"

text \<open>
  The loop \<open>for segment in segments: if segment: seg_id = segment.split('*')[0];
  self.segments_found.append(seg_id)\<close>.
\<close>

fun extract_ids :: "string list \<Rightarrow> Analyzer \<Rightarrow> py_error + Analyzer" where
  "extract_ids [] self = Inr self"
| "extract_ids (seg # segs) self =
     (if seg \<noteq> [] then
        bind_err (py_index (str_split seg (CHR ''*'')) 0) (\<lambda>seg_id.
          extract_ids segs (self\<lparr>self_segments_found := self_segments_found self @ [seg_id]\<rparr>))
      else extract_ids segs self)"

section \<open>Pass A: \<open>_validate_envelopes\<close>\<close>

text \<open>The block under \<open># Check ISA\<close> (lines 107 to 122).\<close>

definition check_isa :: "string list \<Rightarrow> Analyzer \<Rightarrow> Analyzer" where
  "check_isa segments self =
     (let isa_segments = filter (\<lambda>s. str_startswith s ''ISA*'') segments in
      if length isa_segments = 0 then
        append_result self
          (mk_result ERROR ''ENV001'' ''Missing ISA segment (Interchange Control Header)''
             (Some ''ISA''))
      else if length isa_segments > 1 then
        append_result self
          (mk_result WARNING ''ENV002''
             (''Multiple ISA segments found ('' @ str_nat (length isa_segments) @ '')'')
             (Some ''ISA''))
      else self)"

text \<open>The block under \<open># Check GS\<close> (lines 124 to 132).\<close>

definition check_gs :: "string list \<Rightarrow> Analyzer \<Rightarrow> Analyzer" where
  "check_gs segments self =
     (let gs_segments = filter (\<lambda>s. str_startswith s ''GS*'') segments in
      if length gs_segments = 0 then
        append_result self
          (mk_result ERROR ''ENV003'' ''Missing GS segment (Functional Group Header)''
             (Some ''GS''))
      else self)"

text \<open>
  The block under \<open># Check ST\<close> (lines 134 to 159). Each \<open>and\<close> reads its right
  operand only when the left one holds, and every subscript can raise.
\<close>

definition check_st :: "string list \<Rightarrow> Analyzer \<Rightarrow> py_error + Analyzer" where
  "check_st segments self =
     (let st_segments = filter (\<lambda>s. str_startswith s ''ST*'') segments in
      if length st_segments = 0 then
        Inr (append_result self
          (mk_result ERROR ''ENV004'' ''Missing ST segment (Transaction Set Header)''
             (Some ''ST'')))
      else
        bind_err (py_index st_segments 0) (\<lambda>st0.
        let st_elements = str_split st0 (CHR ''*'') in
        bind_err
          (if length st_elements \<ge> 2
           then bind_err (py_index st_elements 1) (\<lambda>e. Inr (e \<noteq> ''278''))
           else Inr False) (\<lambda>bad_code.
        bind_err
          (if bad_code
           then bind_err (py_index st_elements 1) (\<lambda>e.
                  Inr (append_result self
                    (mk_result ERROR ''ENV005''
                       (''Invalid transaction code: expected '' @ [CHR 0x27] @ ''278''
                          @ [CHR 0x27] @ '', found '' @ [CHR 0x27] @ e @ [CHR 0x27])
                       (Some ''ST''))))
           else Inr self) (\<lambda>self1.
        bind_err
          (if length st_elements \<ge> 4
           then bind_err (py_index st_elements 3) (\<lambda>v. Inr (\<not> str_endswith v ''X215''))
           else Inr False) (\<lambda>bad_version.
        if bad_version
        then bind_err (py_index st_elements 3) (\<lambda>v.
               Inr (append_result self1
                 ((mk_result WARNING ''ENV006''
                     (''Implementation guide version '' @ [CHR 0x27] @ v @ [CHR 0x27]
                        @ '' may not be 005010X215'')
                     (Some ''ST''))
                  \<lparr>context_dict := [(''version'', v)]\<rparr>)))
        else Inr self1)))))"

definition validate_envelopes :: "string list \<Rightarrow> Analyzer \<Rightarrow> py_error + Analyzer" where
  "validate_envelopes segments self =
     (if \<not> validateEnvelopes (self_config self) then Inr self
      else check_st segments (check_gs segments (check_isa segments self)))"

section \<open>Pass B: \<open>_validate_required_segments\<close>\<close>

fun required_loop :: "string list \<Rightarrow> Analyzer \<Rightarrow> Analyzer" where
  "required_loop [] self = self"
| "required_loop (seg_id # rest) self =
     required_loop rest
       (if seg_id \<notin> set (self_segments_found self) then
          append_result self
            (mk_result ERROR ''QRE001'' (''Missing required segment: '' @ seg_id) (Some seg_id))
        else self)"

definition validate_required_segments :: "Analyzer \<Rightarrow> Analyzer" where
  "validate_required_segments self =
     (let required = requiredSegments (self_config self) in required_loop required self)"

section \<open>Pass C: \<open>_validate_qre_requirements\<close>\<close>

text \<open>The block on the first \<open>BHT*\<close> segment (lines 179 to 191).\<close>

definition check_bht :: "string list \<Rightarrow> Analyzer \<Rightarrow> py_error + Analyzer" where
  "check_bht segments self =
     (let bht_segments = filter (\<lambda>s. str_startswith s ''BHT*'') segments in
      if bht_segments \<noteq> [] then
        bind_err (py_index bht_segments 0) (\<lambda>bht0.
        let bht_elements = str_split bht0 (CHR ''*'') in
        if length bht_elements \<ge> 2 then
          bind_err (py_index bht_elements 1) (\<lambda>e.
          if e \<noteq> ''0007'' then
            Inr (append_result self
              ((mk_result WARNING ''QRE002''
                  (''BHT01 should be '' @ [CHR 0x27] @ ''0007'' @ [CHR 0x27]
                     @ '' for inquiry, found '' @ [CHR 0x27] @ e @ [CHR 0x27])
                  (Some ''BHT''))
               \<lparr>context_dict := [(''bht01'', e)]\<rparr>))
          else Inr self)
        else Inr self)
      else Inr self)"

text \<open>The block on \<open>UM*\<close> segments (lines 193 to 201).\<close>

definition check_um :: "string list \<Rightarrow> Analyzer \<Rightarrow> Analyzer" where
  "check_um segments self =
     (let um_segments = filter (\<lambda>s. str_startswith s ''UM*'') segments in
      if um_segments = [] then
        append_result self
          (mk_result WARNING ''QRE003''
             ''UM segment (Health Care Services Review Information) is recommended for QRE''
             (Some ''UM''))
      else self)"

text \<open>The block on the first \<open>HCR*\<close> segment (lines 203 to 216).\<close>

definition check_hcr :: "string list \<Rightarrow> Analyzer \<Rightarrow> py_error + Analyzer" where
  "check_hcr segments self =
     (let hcr_segments = filter (\<lambda>s. str_startswith s ''HCR*'') segments in
      if hcr_segments \<noteq> [] then
        bind_err (py_index hcr_segments 0) (\<lambda>hcr0.
        let hcr_elements = str_split hcr0 (CHR ''*'') in
        if length hcr_elements \<ge> 2 then
          bind_err (py_index hcr_elements 1) (\<lambda>e.
          if e \<notin> set [''I1'', ''A1'', ''A2'', ''A3'', ''A4''] then
            Inr (append_result self
              ((mk_result INFO ''QRE004''
                  (''HCR01 action code is '' @ [CHR 0x27] @ e @ [CHR 0x27]
                     @ '' (I1=Inquiry is recommended)'')
                  (Some ''HCR''))
               \<lparr>context_dict := [(''hcr01'', e)]\<rparr>))
          else Inr self)
        else Inr self)
      else Inr self)"

definition validate_qre_requirements :: "string list \<Rightarrow> Analyzer \<Rightarrow> py_error + Analyzer" where
  "validate_qre_requirements segments self =
     (if \<not> minimalDataPrinciple (self_config self) then Inr self
      else bind_err (check_bht segments self) (\<lambda>self1.
           check_hcr segments (check_um segments self1)))"

section \<open>Pass D: \<open>_detect_query_method\<close>\<close>

definition detect_query_method :: "string list \<Rightarrow> Analyzer \<Rightarrow> Analyzer" where
  "detect_query_method segments self =
     (let has_ref_auth = list_ex (\<lambda>s. str_startswith s ''REF*D9*'') segments;
          has_member_id = list_ex (\<lambda>s. str_startswith s ''NM1*IL*'') segments;
          has_dob = list_ex (\<lambda>s. str_startswith s ''DMG*'') segments
      in
      if has_ref_auth then
        append_result (self\<lparr>self_query_method := Some ''ByAuthorizationNumber''\<rparr>)
          (mk_result INFO ''QRE005''
             ''Query method: Authorization Number (REF*D9 segment found)'' (Some ''REF''))
      else if has_member_id \<and> has_dob then
        append_result (self\<lparr>self_query_method := Some ''ByMemberDemographics''\<rparr>)
          (mk_result INFO ''QRE006''
             ''Query method: Member Demographics (NM1*IL and DMG segments found)''
             (Some ''NM1''))
      else
        append_result (self\<lparr>self_query_method := Some ''Unknown''\<rparr>)
          (mk_result WARNING ''QRE007''
             ''Cannot determine query method (need REF*D9 OR (NM1*IL + DMG))''
             (Some ''REF'')))"

section \<open>Report assembly\<close>

text \<open>\<open>sum(1 for r in self.results if r.severity == sev)\<close>.\<close>

definition count_severity :: "Severity \<Rightarrow> ValidationResult list \<Rightarrow> int" where
  "count_severity sev rs = sum_list (map (\<lambda>r. 1) (filter (\<lambda>r. severity r = sev) rs))"

definition generate_report :: "Analyzer \<Rightarrow> string \<Rightarrow> AnalysisReport" where
  "generate_report self fp =
     (let error_count = count_severity ERROR (self_results self);
          warning_count = count_severity WARNING (self_results self);
          info_count = count_severity INFO (self_results self);
          is_valid = (error_count = 0);
          is_valid = (if failOnWarnings (self_config self)
                      then is_valid \<and> warning_count = 0 else is_valid)
      in \<lparr>file_path = fp,
          tr3_version = tr3Version (self_config self),
          is_valid = is_valid,
          error_count = error_count,
          warning_count = warning_count,
          info_count = info_count,
          results = self_results self,
          query_method = self_query_method self,
          segments_found = self_segments_found self\<rparr>)"

definition create_error_report :: "Analyzer \<Rightarrow> string \<Rightarrow> string \<Rightarrow> AnalysisReport" where
  "create_error_report self fp error_msg =
     \<lparr>file_path = fp,
      tr3_version = tr3Version (self_config self),
      is_valid = False,
      error_count = 1,
      warning_count = 0,
      info_count = 0,
      results = [mk_result ERROR ''SYS001'' error_msg None],
      query_method = None,
      segments_found = []\<rparr>"

section \<open>\<open>analyze_file\<close>\<close>

text \<open>
  The function first prints \<open>Analyzing X12 278 file: \<close> and the path, before the
  \<open>try\<close>: a fault of this \<open>print\<close> leaves the function. Reading the file is the
  caller's world: \<open>Inl e\<close> is an exception of \<open>open\<close> or \<open>read\<close> whose \<open>str\<close> is
  \<open>e\<close>, \<open>Inr content\<close> the text read. The result is the report and the analyzer
  object as the run leaves it.
\<close>

definition analyze_file ::
  "stdout \<Rightarrow> Analyzer \<Rightarrow> string \<Rightarrow> string + string
     \<Rightarrow> py_error + (AnalysisReport \<times> Analyzer)" where
  "analyze_file out self fp read_result =
     bind_err (py_print out (''Analyzing X12 278 file: '' @ fp)) (\<lambda>_.
     (case read_result of
        Inl e \<Rightarrow> Inr (create_error_report self fp (''Failed to read file: '' @ e), self)
      | Inr content \<Rightarrow>
          (let self0 = self\<lparr>self_results := [], self_segments_found := []\<rparr>;
               segments = parse_segments content
           in bind_err (extract_ids segments self0) (\<lambda>self1.
              bind_err (validate_envelopes segments self1) (\<lambda>self2.
              bind_err (validate_qre_requirements segments (validate_required_segments self2))
                (\<lambda>self3.
              let self4 = detect_query_method segments self3
              in Inr (generate_report self4 fp, self4)))))))"

section \<open>Vocabulary of the specification\<close>

text \<open>
  The findings a pass appends: \<open>emits self new\<close> is the analyzer after
  \<open>self.results.append\<close> of each element of \<open>new\<close>, in order.
\<close>

definition emits :: "Analyzer \<Rightarrow> ValidationResult list \<Rightarrow> Analyzer" where
  "emits self new = self\<lparr>self_results := self_results self @ new\<rparr>"

text \<open>
  The specification speaks of a segment's identifier and of its elements: the tokens of
  the record split on the field delimiter, the identifier being the first.
\<close>

definition spec_has_identifier :: "string \<Rightarrow> string \<Rightarrow> bool" where
  "spec_has_identifier i s = (py_index (str_split s (CHR ''*'')) 0 = Inr i)"

definition spec_second_element_is :: "string \<Rightarrow> string \<Rightarrow> bool" where
  "spec_second_element_is e s = (py_index (str_split s (CHR ''*'')) 1 = Inr e)"

definition spec_is_ref_d9 :: "string \<Rightarrow> bool" where
  "spec_is_ref_d9 s = (spec_has_identifier ''REF'' s \<and> spec_second_element_is ''D9'' s)"

text \<open>A configuration and a fresh analyzer to run the functions on.\<close>

definition example_config :: Config where
  "example_config =
     \<lparr>tr3Version = ''005010X215'', validateEnvelopes = True,
      requiredSegments = [''ISA'', ''GS'', ''ST'', ''BHT''],
      minimalDataPrinciple = True, failOnWarnings = True\<rparr>"

definition example_analyzer :: Analyzer where
  "example_analyzer =
     \<lparr>self_config = example_config, self_results = [], self_segments_found = [],
      self_query_method = None\<rparr>"

text \<open>
  Two standard outputs: one that encodes every character (UTF-8), and one with the
  strict ASCII encoding, which raises on a code point of 128 or more.
\<close>

definition utf8_stdout :: stdout where
  "utf8_stdout s = Inr ()"

definition ascii_stdout :: stdout where
  "ascii_stdout s = (if list_ex digit7 s then Inl UnicodeEncodeError else Inr ())"

section \<open>Lemmas on the primitives and the passes\<close>


lemma bind_err_simps [simp]:
  "bind_err (Inl e) f = Inl e" "bind_err (Inr x) f = f x"
  by (simp_all add: bind_err_def)

lemma str_split_not_Nil: "str_split s c \<noteq> []"
  by (induction s) (auto split: list.splits)

lemma py_index_split_0: "py_index (str_split s c) 0 = Inr (takeWhile (\<lambda>x. x \<noteq> c) s)"
proof -
  have "hd (str_split s c) = takeWhile (\<lambda>x. x \<noteq> c) s"
    by (induction s) (auto simp: str_split_not_Nil split: list.splits)
  with str_split_not_Nil [of s c] show ?thesis
    by (cases "str_split s c") (auto simp: py_index_def)
qed

lemma extract_ids_eq:
  "extract_ids segs self =
     Inr (self\<lparr>self_segments_found := self_segments_found self
            @ map (takeWhile (\<lambda>x. x \<noteq> CHR ''*'')) (filter (\<lambda>s. s \<noteq> []) segs)\<rparr>)"
  by (induction segs arbitrary: self) (simp_all add: py_index_split_0)


lemma emits_Nil [simp]: "emits self [] = self"
  by (simp add: emits_def)

lemma emits_emits [simp]: "emits (emits self xs) ys = emits self (xs @ ys)"
  by (simp add: emits_def)

lemma emits_fields [simp]:
  "self_config (emits self new) = self_config self"
  "self_segments_found (emits self new) = self_segments_found self"
  "self_query_method (emits self new) = self_query_method self"
  "self_results (emits self new) = self_results self @ new"
  by (simp_all add: emits_def)

lemma append_result_emits: "append_result self r = emits self [r]"
  by (simp add: append_result_def emits_def)

lemma check_isa_emits: "\<exists>new. check_isa segs self = emits self new"
  unfolding check_isa_def Let_def append_result_emits
  by (metis emits_Nil)

lemma check_gs_emits: "\<exists>new. check_gs segs self = emits self new"
  unfolding check_gs_def Let_def append_result_emits
  by (metis emits_Nil)

lemma check_um_emits: "\<exists>new. check_um segs self = emits self new"
  unfolding check_um_def Let_def append_result_emits
  by (metis emits_Nil)

lemma py_index_0_Cons [simp]: "py_index (x # xs) 0 = Inr x"
  by (simp add: py_index_def)

lemma py_index_in_range: "i < length xs \<Longrightarrow> py_index xs i = Inr (xs ! i)"
  by (simp add: py_index_def)

lemma check_st_emits: "\<exists>new. check_st segs self = Inr (emits self new)"
proof (cases "filter (\<lambda>s. str_startswith s ''ST*'') segs")
  case Nil
  then show ?thesis
    by (simp add: check_st_def append_result_emits) blast
next
  case (Cons st0 rest)
  then show ?thesis
    apply (simp add: check_st_def append_result_emits Let_def py_index_in_range)
    by (metis emits_Nil)
qed


lemma check_bht_emits: "\<exists>new. check_bht segs self = Inr (emits self new)"
proof (cases "filter (\<lambda>s. str_startswith s ''BHT*'') segs")
  case Nil
  then show ?thesis
    by (simp add: check_bht_def) (metis emits_Nil)
next
  case (Cons b rest)
  then show ?thesis
    apply (simp add: check_bht_def append_result_emits Let_def py_index_in_range)
    by (metis emits_Nil)
qed

lemma check_hcr_emits: "\<exists>new. check_hcr segs self = Inr (emits self new)"
proof (cases "filter (\<lambda>s. str_startswith s ''HCR*'') segs")
  case Nil
  then show ?thesis
    by (simp add: check_hcr_def) (metis emits_Nil)
next
  case (Cons b rest)
  then show ?thesis
    apply (simp add: check_hcr_def append_result_emits Let_def py_index_in_range)
    by (metis emits_Nil)
qed

lemma validate_envelopes_emits:
  "\<exists>new. validate_envelopes segs self = Inr (emits self new)"
proof (cases "validateEnvelopes (self_config self)")
  case False
  then show ?thesis by (simp add: validate_envelopes_def) (metis emits_Nil)
next
  case True
  obtain a where a: "check_isa segs self = emits self a"
    using check_isa_emits by blast
  obtain b where b: "check_gs segs (emits self a) = emits (emits self a) b"
    using check_gs_emits by blast
  obtain c where c: "check_st segs (emits self (a @ b)) = Inr (emits (emits self (a @ b)) c)"
    using check_st_emits by blast
  from True a b c show ?thesis
    by (simp add: validate_envelopes_def) blast
qed

lemma required_loop_eq:
  "required_loop req self =
     emits self (map (\<lambda>i. mk_result ERROR ''QRE001'' (''Missing required segment: '' @ i) (Some i))
                   (filter (\<lambda>i. i \<notin> set (self_segments_found self)) req))"
  by (induction req arbitrary: self) (simp_all add: append_result_emits)

lemma validate_required_segments_emits:
  "\<exists>new. validate_required_segments self = emits self new"
  by (simp add: validate_required_segments_def required_loop_eq) blast

lemma validate_qre_requirements_emits:
  "\<exists>new. validate_qre_requirements segs self = Inr (emits self new)"
proof (cases "minimalDataPrinciple (self_config self)")
  case False
  then show ?thesis by (simp add: validate_qre_requirements_def) (metis emits_Nil)
next
  case True
  obtain a where a: "check_bht segs self = Inr (emits self a)"
    using check_bht_emits by blast
  obtain b where b: "check_um segs (emits self a) = emits (emits self a) b"
    using check_um_emits by blast
  obtain c where c: "check_hcr segs (emits self (a @ b)) = Inr (emits (emits self (a @ b)) c)"
    using check_hcr_emits by blast
  from True a b c show ?thesis
    by (simp add: validate_qre_requirements_def) blast
qed

lemma count_severity_length:
  "count_severity sev rs = int (length (filter (\<lambda>r. severity r = sev) rs))"
  by (induction rs) (simp_all add: count_severity_def)

lemma severity_partition:
  "length (filter (\<lambda>r. severity r = ERROR) rs) + length (filter (\<lambda>r. severity r = WARNING) rs)
     + length (filter (\<lambda>r. severity r = INFO) rs) = length rs"
proof (induction rs)
  case Nil
  then show ?case by simp
next
  case (Cons r rs)
  then show ?case by (cases "severity r") simp_all
qed



lemma str_split_no_sep: "p \<in> set (str_split s c) \<Longrightarrow> c \<notin> set p"
proof (induction s arbitrary: p)
  case Nil
  then show ?case by simp
next
  case (Cons a s)
  then show ?case
    by (cases "str_split s c") (auto simp: str_split_not_Nil split: if_splits)
qed

lemma str_join_Cons: "str_join c (x # xs) = (if xs = [] then x else x @ c # str_join c xs)"
  by (cases xs) simp_all

lemma str_join_split: "str_join c (str_split s c) = s"
proof (induction s)
  case Nil
  then show ?case by simp
next
  case (Cons a s)
  then show ?case
    by (cases "str_split s c") (auto simp: str_split_not_Nil str_join_Cons split: if_splits)
qed

lemma str_split_append_sep:
  "c \<notin> set p \<Longrightarrow> str_split (p @ c # t) c = p # str_split t c"
  by (induction p) (auto split: list.splits)

lemma str_split_no_sep_id: "c \<notin> set p \<Longrightarrow> str_split p c = [p]"
  by (induction p) (auto split: list.splits)

lemma str_split_join:
  "xs \<noteq> [] \<Longrightarrow> \<forall>x\<in>set xs. c \<notin> set x \<Longrightarrow> str_split (str_join c xs) c = xs"
proof (induction xs)
  case Nil
  then show ?case by simp
next
  case (Cons x xs)
  then show ?case
    by (cases xs) (simp_all add: str_split_no_sep_id str_split_append_sep)
qed

lemma str_strip_subset: "set (str_strip s) \<subseteq> set s"
proof -
  have "set (dropWhile is_space (rev (dropWhile is_space s))) \<subseteq> set (rev (dropWhile is_space s))"
    by (meson set_dropWhileD subsetI)
  moreover have "set (dropWhile is_space s) \<subseteq> set s"
    by (meson set_dropWhileD subsetI)
  ultimately show ?thesis by (auto simp: str_strip_def)
qed

lemma dropWhile_rev_prefix: "\<exists>w. t = rev (dropWhile P (rev t)) @ w"
proof -
  have "rev t = takeWhile P (rev t) @ dropWhile P (rev t)" by simp
  then have "rev (rev t) = rev (takeWhile P (rev t) @ dropWhile P (rev t))" by simp
  then have "t = rev (dropWhile P (rev t)) @ rev (takeWhile P (rev t))"
    by (simp only: rev_rev_ident rev_append)
  then show ?thesis ..
qed

lemma str_strip_idem: "str_strip (str_strip s) = str_strip s"
proof -
  define t where "t = dropWhile is_space s"
  define u where "u = rev (dropWhile is_space (rev t))"
  have u: "str_strip s = u" by (simp add: str_strip_def t_def u_def)
  obtain w where w: "t = u @ w" unfolding u_def using dropWhile_rev_prefix by blast
  have "dropWhile is_space u = u"
  proof (cases u)
    case Nil
    then show ?thesis by simp
  next
    case (Cons a u')
    with w have "t \<noteq> []" "hd t = a" by simp_all
    then have "\<not> is_space a" unfolding t_def using hd_dropWhile by metis
    with Cons show ?thesis by simp
  qed
  then have "str_strip u = rev (dropWhile is_space (rev u))" by (simp add: str_strip_def)
  also have "rev u = dropWhile is_space (rev t)" by (simp add: u_def)
  finally show ?thesis by (simp add: u u_def)
qed

lemma parse_segments_alt:
  "parse_segments content = filter (\<lambda>r. r \<noteq> []) (map str_strip (str_split content (CHR ''~'')))"
  by (simp add: parse_segments_def filter_map comp_def)

lemma parse_segments_props:
  assumes "r \<in> set (parse_segments content)"
  shows "r \<noteq> []" and "CHR ''~'' \<notin> set r" and "str_strip r = r"
proof -
  from assms obtain p where p: "p \<in> set (str_split content (CHR ''~''))" "r = str_strip p" "r \<noteq> []"
    by (auto simp: parse_segments_alt)
  show "r \<noteq> []" by fact
  from p(1) have "CHR ''~'' \<notin> set p" by (rule str_split_no_sep)
  with p(2) str_strip_subset [of p] show "CHR ''~'' \<notin> set r" by blast
  from p(2) show "str_strip r = r" by (simp add: str_strip_idem)
qed

lemma parse_segments_join:
  "parse_segments (str_join (CHR ''~'') (parse_segments content)) = parse_segments content"
proof (cases "parse_segments content = []")
  case True
  then show ?thesis by (simp add: parse_segments_def str_strip_def)
next
  case False
  let ?R = "parse_segments content"
  have "str_split (str_join (CHR ''~'') ?R) (CHR ''~'') = ?R"
    using False parse_segments_props(2) by (intro str_split_join) auto
  then have "parse_segments (str_join (CHR ''~'') ?R) = filter (\<lambda>r. r \<noteq> []) (map str_strip ?R)"
    by (simp add: parse_segments_alt)
  also have "map str_strip ?R = ?R"
    using parse_segments_props(3) by (simp add: map_idI)
  also have "filter (\<lambda>r. r \<noteq> []) ?R = ?R"
    using parse_segments_props(1) by (simp add: filter_id_conv)
  finally show ?thesis .
qed

lemma parse_segments_terminators: "parse_segments (replicate n (CHR ''~'')) = []"
  by (induction n) (simp_all add: parse_segments_def str_strip_def)

lemma detect_query_method_eq:
  "detect_query_method segs self =
     (if list_ex (\<lambda>s. str_startswith s ''REF*D9*'') segs then
        emits (self\<lparr>self_query_method := Some ''ByAuthorizationNumber''\<rparr>)
          [mk_result INFO ''QRE005''
             ''Query method: Authorization Number (REF*D9 segment found)'' (Some ''REF'')]
      else if list_ex (\<lambda>s. str_startswith s ''NM1*IL*'') segs
              \<and> list_ex (\<lambda>s. str_startswith s ''DMG*'') segs then
        emits (self\<lparr>self_query_method := Some ''ByMemberDemographics''\<rparr>)
          [mk_result INFO ''QRE006''
             ''Query method: Member Demographics (NM1*IL and DMG segments found)''
             (Some ''NM1'')]
      else
        emits (self\<lparr>self_query_method := Some ''Unknown''\<rparr>)
          [mk_result WARNING ''QRE007''
             ''Cannot determine query method (need REF*D9 OR (NM1*IL + DMG))''
             (Some ''REF'')])"
  unfolding detect_query_method_def Let_def append_result_emits ..

lemma detect_query_method_emits:
  "\<exists>m f. detect_query_method segs self = emits (self\<lparr>self_query_method := Some m\<rparr>) [f]"
  by (metis detect_query_method_eq)

lemma analyze_file_print_fault:
  "py_print out (''Analyzing X12 278 file: '' @ fp) = Inl e \<Longrightarrow>
   analyze_file out self fp read_result = Inl e"
  by (simp add: analyze_file_def)

lemma analyze_file_chain:
  assumes "py_print out (''Analyzing X12 278 file: '' @ fp) = Inr ()"
  shows "\<exists>s1 s2 s3.
     extract_ids (parse_segments content) (self\<lparr>self_results := [], self_segments_found := []\<rparr>)
       = Inr s1 \<and>
     validate_envelopes (parse_segments content) s1 = Inr s2 \<and>
     validate_qre_requirements (parse_segments content) (validate_required_segments s2) = Inr s3 \<and>
     analyze_file out self fp (Inr content) =
       Inr (generate_report (detect_query_method (parse_segments content) s3) fp,
            detect_query_method (parse_segments content) s3)"
proof -
  let ?segs = "parse_segments content"
  obtain s1 where s1: "extract_ids ?segs (self\<lparr>self_results := [], self_segments_found := []\<rparr>) = Inr s1"
    using extract_ids_eq by blast
  obtain a where a: "validate_envelopes ?segs s1 = Inr (emits s1 a)"
    using validate_envelopes_emits by blast
  obtain b where b: "validate_qre_requirements ?segs (validate_required_segments (emits s1 a))
      = Inr (emits (validate_required_segments (emits s1 a)) b)"
    using validate_qre_requirements_emits by blast
  from assms s1 a b show ?thesis
    by (simp add: analyze_file_def Let_def)
qed

lemma analyze_file_report:
  assumes "py_print out (''Analyzing X12 278 file: '' @ fp) = Inr ()"
  shows "\<exists>final. analyze_file out self fp (Inr content) = Inr (generate_report final fp, final) \<and>
     self_config final = self_config self \<and>
     self_segments_found final = map (takeWhile (\<lambda>x. x \<noteq> CHR ''*'')) (parse_segments content)"
proof -
  let ?segs = "parse_segments content"
  let ?s1 = "self\<lparr>self_results := [], self_segments_found := map (takeWhile (\<lambda>x. x \<noteq> CHR ''*'')) ?segs\<rparr>"
  have nonempty: "filter (\<lambda>s. s \<noteq> []) ?segs = ?segs"
    using parse_segments_props(1) by (simp add: filter_id_conv)
  have s1: "extract_ids ?segs (self\<lparr>self_results := [], self_segments_found := []\<rparr>) = Inr ?s1"
    by (simp add: extract_ids_eq nonempty)
  obtain a where a: "validate_envelopes ?segs ?s1 = Inr (emits ?s1 a)"
    using validate_envelopes_emits by blast
  obtain b where b: "validate_required_segments (emits ?s1 a) = emits (emits ?s1 a) b"
    using validate_required_segments_emits by blast
  obtain c where c: "validate_qre_requirements ?segs (emits ?s1 (a @ b)) = Inr (emits (emits ?s1 (a @ b)) c)"
    using validate_qre_requirements_emits by blast
  obtain m f where d: "detect_query_method ?segs (emits ?s1 (a @ b @ c))
      = emits ((emits ?s1 (a @ b @ c))\<lparr>self_query_method := Some m\<rparr>) [f]"
    using detect_query_method_emits by blast
  from assms s1 a b c d show ?thesis
    by (simp add: analyze_file_def Let_def)
qed

section \<open>The report\<close>

text \<open>
  Claim C1. Every run of \<open>analyze_file\<close> that got past its opening \<open>print\<close>, on a
  text that was read or on a read failure, returns a report whose \<open>error_count\<close>,
  \<open>warning_count\<close> and \<open>info_count\<close> are the numbers of findings of severity ERROR, WARNING and INFO in \<open>results\<close>, so that
  the three add up to the length of \<open>results\<close>, and whose \<open>is_valid\<close> holds exactly
  when \<open>error_count\<close> is 0 and \<open>failOnWarnings\<close> is off or \<open>warning_count\<close> is 0.
\<close>

theorem report_counts_and_validity:
  assumes "py_print out (''Analyzing X12 278 file: '' @ fp) = Inr ()"
  shows "\<exists>rep self'. analyze_file out self fp read_result = Inr (rep, self') \<and>
     error_count rep = int (length (filter (\<lambda>r. severity r = ERROR) (results rep))) \<and>
     warning_count rep = int (length (filter (\<lambda>r. severity r = WARNING) (results rep))) \<and>
     info_count rep = int (length (filter (\<lambda>r. severity r = INFO) (results rep))) \<and>
     error_count rep + warning_count rep + info_count rep = int (length (results rep)) \<and>
     (is_valid rep \<longleftrightarrow>
        error_count rep = 0 \<and>
        (\<not> failOnWarnings (self_config self) \<or> warning_count rep = 0))"
proof (cases read_result)
  case (Inl e)
  with assms show ?thesis
    by (simp add: analyze_file_def create_error_report_def mk_result_def)
next
  case (Inr content)
  obtain final where final:
    "analyze_file out self fp (Inr content) = Inr (generate_report final fp, final)"
    "self_config final = self_config self"
    using analyze_file_report [OF assms] by blast
  show ?thesis
    using severity_partition [of "self_results final"] final Inr
    by (simp add: generate_report_def Let_def count_severity_length)
qed



text \<open>
  With \<open>failOnWarnings\<close> on, a transaction without a \<open>UM\<close> segment has no error,
  one warning and one info finding, and is not valid.
\<close>

theorem report_counts_and_validity_witness:
  "py_print utf8_stdout (''Analyzing X12 278 file: '' @ ''a.edi'') = Inr () \<and>
   failOnWarnings (self_config example_analyzer) \<and>
   (\<exists>rep self'. analyze_file utf8_stdout example_analyzer ''a.edi''
        (Inr ''ISA*00~GS*HI~ST*278*1*005010X215~BHT*0007~REF*D9*A1~'') = Inr (rep, self') \<and>
      error_count rep = 0 \<and> warning_count rep = 1 \<and> info_count rep = 1 \<and>
      length (results rep) = 2 \<and> \<not> is_valid rep)"
proof -
  have printed: "py_print utf8_stdout (''Analyzing X12 278 file: '' @ ''a.edi'') = Inr ()"
    by (simp add: py_print_def utf8_stdout_def)
  have run: "map_sum id (\<lambda>p. map severity (results (fst p)))
      (analyze_file utf8_stdout example_analyzer ''a.edi''
        (Inr ''ISA*00~GS*HI~ST*278*1*005010X215~BHT*0007~REF*D9*A1~'')) = Inr [WARNING, INFO]"
    by code_simp
  have cfg: "failOnWarnings (self_config example_analyzer)"
    by (simp add: example_analyzer_def example_config_def)
  from report_counts_and_validity [OF printed, of example_analyzer
      "Inr ''ISA*00~GS*HI~ST*278*1*005010X215~BHT*0007~REF*D9*A1~''"]
  obtain rep self' where r:
    "analyze_file utf8_stdout example_analyzer ''a.edi''
        (Inr ''ISA*00~GS*HI~ST*278*1*005010X215~BHT*0007~REF*D9*A1~'') = Inr (rep, self')"
    "error_count rep = int (length (filter (\<lambda>r. severity r = ERROR) (results rep)))"
    "warning_count rep = int (length (filter (\<lambda>r. severity r = WARNING) (results rep)))"
    "info_count rep = int (length (filter (\<lambda>r. severity r = INFO) (results rep)))"
    "is_valid rep \<longleftrightarrow> error_count rep = 0 \<and>
        (\<not> failOnWarnings (self_config example_analyzer) \<or> warning_count rep = 0)"
    by blast
  from run r(1) have sev: "map severity (results rep) = [WARNING, INFO]" by simp
  then obtain w i where wi: "results rep = [w, i]" "severity w = WARNING" "severity i = INFO"
    by auto
  from wi r(2-5) cfg have "error_count rep = 0 \<and> warning_count rep = 1 \<and> info_count rep = 1 \<and>
      length (results rep) = 2 \<and> \<not> is_valid rep"
    by simp
  with r(1) cfg printed show ?thesis by blast
qed



section \<open>Totality\<close>

text \<open>
  Claim C9, as the code has it. The one fault a run can raise is that of the \<open>print\<close>
  at its start, which stands before the \<open>try\<close>: when that \<open>print\<close> raises, the run
  raises the same fault, and when it returns, the run returns a report, on every read
  result and every configuration. On every text the identifiers are extracted, the
  envelope pass, the required-segment pass, the minimal-data pass and the query-method
  inference each run to their end, in this order, and the report is built from the state
  the last one leaves. Each subscript the passes read is in range on every segment list,
  short segments and the empty list included.
\<close>

theorem analyze_file_never_raises:
  "(py_print out (''Analyzing X12 278 file: '' @ fp) = Inr () \<longrightarrow>
      (\<exists>rep self'. analyze_file out self fp read_result = Inr (rep, self'))) \<and>
   (\<forall>e. py_print out (''Analyzing X12 278 file: '' @ fp) = Inl e \<longrightarrow>
      analyze_file out self fp read_result = Inl e) \<and>
   (\<exists>s1 s2 s3.
      extract_ids (parse_segments content) (self\<lparr>self_results := [], self_segments_found := []\<rparr>)
        = Inr s1 \<and>
      validate_envelopes (parse_segments content) s1 = Inr s2 \<and>
      validate_qre_requirements (parse_segments content) (validate_required_segments s2)
        = Inr s3 \<and>
      (py_print out (''Analyzing X12 278 file: '' @ fp) = Inr () \<longrightarrow>
       analyze_file out self fp (Inr content) =
         Inr (generate_report (detect_query_method (parse_segments content) s3) fp,
              detect_query_method (parse_segments content) s3))) \<and>
   (\<exists>s. extract_ids segs self = Inr s) \<and>
   (\<exists>new. check_st segs self = Inr (emits self new)) \<and>
   (\<exists>new. validate_envelopes segs self = Inr (emits self new)) \<and>
   (\<exists>new. check_bht segs self = Inr (emits self new)) \<and>
   (\<exists>new. check_hcr segs self = Inr (emits self new)) \<and>
   (\<exists>new. validate_qre_requirements segs self = Inr (emits self new))"
proof -
  let ?printed = "py_print out (''Analyzing X12 278 file: '' @ fp) = Inr ()"
  have returns: "?printed \<longrightarrow> (\<exists>rep self'. analyze_file out self fp read_result = Inr (rep, self'))"
  proof
    assume printed: ?printed
    show "\<exists>rep self'. analyze_file out self fp read_result = Inr (rep, self')"
    proof (cases read_result)
      case (Inl e)
      with printed show ?thesis by (simp add: analyze_file_def)
    next
      case (Inr c)
      then show ?thesis using analyze_file_report [OF printed, of self c] by blast
    qed
  qed
  have raises: "\<forall>e. py_print out (''Analyzing X12 278 file: '' @ fp) = Inl e \<longrightarrow>
      analyze_file out self fp read_result = Inl e"
    by (simp add: analyze_file_print_fault)
  have chain: "\<exists>s1 s2 s3.
      extract_ids (parse_segments content) (self\<lparr>self_results := [], self_segments_found := []\<rparr>)
        = Inr s1 \<and>
      validate_envelopes (parse_segments content) s1 = Inr s2 \<and>
      validate_qre_requirements (parse_segments content) (validate_required_segments s2)
        = Inr s3 \<and>
      (?printed \<longrightarrow>
       analyze_file out self fp (Inr content) =
         Inr (generate_report (detect_query_method (parse_segments content) s3) fp,
              detect_query_method (parse_segments content) s3))"
  proof (cases ?printed)
    case True
    from analyze_file_chain [OF True, of content self] show ?thesis by blast
  next
    case False
    obtain s1 where s1: "extract_ids (parse_segments content)
        (self\<lparr>self_results := [], self_segments_found := []\<rparr>) = Inr s1"
      using extract_ids_eq by blast
    obtain a where a: "validate_envelopes (parse_segments content) s1 = Inr (emits s1 a)"
      using validate_envelopes_emits by blast
    obtain b where b: "validate_qre_requirements (parse_segments content)
        (validate_required_segments (emits s1 a))
        = Inr (emits (validate_required_segments (emits s1 a)) b)"
      using validate_qre_requirements_emits by blast
    from False s1 a b show ?thesis by blast
  qed
  have ids: "\<exists>s. extract_ids segs self = Inr s"
    by (simp add: extract_ids_eq)
  from returns raises chain ids check_st_emits [of segs self]
    validate_envelopes_emits [of segs self] check_bht_emits [of segs self]
    check_hcr_emits [of segs self] validate_qre_requirements_emits [of segs self]
  show ?thesis by (intro conjI) assumption+
qed

text \<open>
  A document of bare records, on a path with a letter outside ASCII and a standard
  output that encodes it: the run returns its findings.
\<close>

theorem analyze_file_never_raises_witness:
  "py_print utf8_stdout (''Analyzing X12 278 file: '' @ ''caf'' @ [CHR 0xE9] @ ''.edi'') = Inr () \<and>
   (\<exists>rep self'. analyze_file utf8_stdout example_analyzer (''caf'' @ [CHR 0xE9] @ ''.edi'')
        (Inr ''ST~BHT~HCR'') = Inr (rep, self') \<and>
      map code (results rep) =
        [''ENV001'', ''ENV003'', ''ENV004'', ''QRE001'', ''QRE001'', ''QRE003'', ''QRE007''])"
proof -
  have printed:
    "py_print utf8_stdout (''Analyzing X12 278 file: '' @ ''caf'' @ [CHR 0xE9] @ ''.edi'') = Inr ()"
    by (simp add: py_print_def utf8_stdout_def)
  have run: "map_sum id (\<lambda>p. map code (results (fst p)))
      (analyze_file utf8_stdout example_analyzer (''caf'' @ [CHR 0xE9] @ ''.edi'')
        (Inr ''ST~BHT~HCR'')) =
      Inr [''ENV001'', ''ENV003'', ''ENV004'', ''QRE001'', ''QRE001'', ''QRE003'', ''QRE007'']"
    by code_simp
  from analyze_file_never_raises [THEN conjunct1, THEN mp, OF printed,
      of example_analyzer "Inr ''ST~BHT~HCR''"]
  obtain rep self' where r:
    "analyze_file utf8_stdout example_analyzer (''caf'' @ [CHR 0xE9] @ ''.edi'')
        (Inr ''ST~BHT~HCR'') = Inr (rep, self')"
    by blast
  with run have "map code (results rep) =
      [''ENV001'', ''ENV003'', ''ENV004'', ''QRE001'', ''QRE001'', ''QRE003'', ''QRE007'']"
    by simp
  with r printed show ?thesis by (intro conjI exI) assumption+
qed

text \<open>
  A run can raise: on a standard output with the ASCII encoding, the path
  \<open>caf\<close>, e acute, \<open>.edi\<close> cannot be printed, and the run ends with the fault of the
  \<open>print\<close> whatever the text of the file.
\<close>

theorem print_fault_counterexample:
  "analyze_file ascii_stdout example_analyzer (''caf'' @ [CHR 0xE9] @ ''.edi'')
     (Inr ''ISA*00~GS*HC~ST*278*1*005010X215~'') = Inl UnicodeEncodeError"
  by (simp add: analyze_file_def py_print_def ascii_stdout_def)

lemma str_strip_trims:
  "\<exists>a b. s = a @ str_strip s @ b \<and> list_all is_space a \<and> list_all is_space b \<and>
     (str_strip s = [] \<or> (\<not> is_space (hd (str_strip s)) \<and> \<not> is_space (last (str_strip s))))"
proof -
  define t where "t = dropWhile is_space s"
  define u where "u = rev (dropWhile is_space (rev t))"
  define w where "w = rev (takeWhile is_space (rev t))"
  have u: "str_strip s = u" by (simp add: str_strip_def t_def u_def)
  have "rev t = takeWhile is_space (rev t) @ dropWhile is_space (rev t)" by simp
  then have "rev (rev t) = rev (takeWhile is_space (rev t) @ dropWhile is_space (rev t))"
    by simp
  then have tw: "t = u @ w"
    by (simp only: rev_rev_ident rev_append u_def w_def)
  have "s = takeWhile is_space s @ t"
    by (simp add: t_def)
  with tw have s: "s = takeWhile is_space s @ u @ w"
    by simp
  have a: "list_all is_space (takeWhile is_space s)"
    by (auto simp: list_all_iff dest: set_takeWhileD)
  have b: "list_all is_space w"
    by (auto simp: list_all_iff w_def dest: set_takeWhileD)
  have ends: "\<not> is_space (hd u) \<and> \<not> is_space (last u)" if "u \<noteq> []"
  proof
    from that tw have "t \<noteq> []" "hd t = hd u" by (cases u; simp)+
    then show "\<not> is_space (hd u)" unfolding t_def using hd_dropWhile by metis
    from that have "dropWhile is_space (rev t) \<noteq> []" by (simp add: u_def)
    then have "\<not> is_space (hd (dropWhile is_space (rev t)))" by (rule hd_dropWhile)
    moreover have "last u = hd (dropWhile is_space (rev t))"
      using that by (simp add: u_def last_rev)
    ultimately show "\<not> is_space (last u)" by simp
  qed
  from s a b ends show ?thesis unfolding u by blast
qed

section \<open>Segment extraction\<close>

text \<open>
  Claim C3. Extraction splits the text on \<open>~\<close> (the pieces joined by \<open>~\<close> are the
  text again, and no piece holds a \<open>~\<close>), strips each piece (what is cut off at
  either end is whitespace, and what is left neither starts nor ends with whitespace),
  drops the pieces that are empty once stripped, and takes as identifier of each record
  left its characters before the first \<open>*\<close>, the whole record when it has none: \<open>segment.split('*')[0]\<close> is in
  range and is that prefix. Records and identifiers keep the order of the document, and
  nothing is merged. A text of \<open>n\<close> terminators and nothing else (the empty text for
  \<open>n = 0\<close>) gives no record and no identifier, and the run, once past its opening
  \<open>print\<close>, still returns a report.
\<close>

theorem segment_extraction:
  "str_join (CHR ''~'') (str_split content (CHR ''~'')) = content \<and>
   (\<forall>p\<in>set (str_split content (CHR ''~'')). CHR ''~'' \<notin> set p) \<and>
   parse_segments content =
     filter (\<lambda>r. r \<noteq> []) (map str_strip (str_split content (CHR ''~''))) \<and>
   (\<forall>p. \<exists>a b. p = a @ str_strip p @ b \<and> list_all is_space a \<and> list_all is_space b \<and>
      (str_strip p = [] \<or>
       (\<not> is_space (hd (str_strip p)) \<and> \<not> is_space (last (str_strip p))))) \<and>
   (\<forall>r. py_index (str_split r (CHR ''*'')) 0 = Inr (takeWhile (\<lambda>c. c \<noteq> CHR ''*'') r)) \<and>
   extract_ids (parse_segments content) self =
     Inr (self\<lparr>self_segments_found := self_segments_found self
            @ map (takeWhile (\<lambda>c. c \<noteq> CHR ''*'')) (parse_segments content)\<rparr>) \<and>
   (py_print out (''Analyzing X12 278 file: '' @ fp) = Inr () \<longrightarrow>
    (\<exists>rep self'. analyze_file out self fp (Inr content) = Inr (rep, self') \<and>
       segments_found rep = map (takeWhile (\<lambda>c. c \<noteq> CHR ''*'')) (parse_segments content) \<and>
       self_segments_found self' = segments_found rep)) \<and>
   parse_segments (replicate n (CHR ''~'')) = [] \<and>
   (py_print out (''Analyzing X12 278 file: '' @ fp) = Inr () \<longrightarrow>
    (\<exists>rep self'. analyze_file out self fp (Inr (replicate n (CHR ''~''))) = Inr (rep, self') \<and>
       segments_found rep = []))"
proof -
  have ids: "extract_ids (parse_segments content) self =
     Inr (self\<lparr>self_segments_found := self_segments_found self
            @ map (takeWhile (\<lambda>c. c \<noteq> CHR ''*'')) (parse_segments content)\<rparr>)"
  proof -
    have "filter (\<lambda>s. s \<noteq> []) (parse_segments content) = parse_segments content"
      using parse_segments_props(1) by (simp add: filter_id_conv)
    then show ?thesis by (simp add: extract_ids_eq)
  qed
  have run: "py_print out (''Analyzing X12 278 file: '' @ fp) = Inr () \<longrightarrow>
     (\<exists>rep self'. analyze_file out self fp (Inr c) = Inr (rep, self') \<and>
      segments_found rep = map (takeWhile (\<lambda>c. c \<noteq> CHR ''*'')) (parse_segments c) \<and>
      self_segments_found self' = segments_found rep)" for c
  proof
    assume printed: "py_print out (''Analyzing X12 278 file: '' @ fp) = Inr ()"
    from analyze_file_report [OF printed, of self c]
    show "\<exists>rep self'. analyze_file out self fp (Inr c) = Inr (rep, self') \<and>
      segments_found rep = map (takeWhile (\<lambda>c. c \<noteq> CHR ''*'')) (parse_segments c) \<and>
      self_segments_found self' = segments_found rep"
      by (auto simp: generate_report_def Let_def)
  qed
  have empty: "py_print out (''Analyzing X12 278 file: '' @ fp) = Inr () \<longrightarrow>
     (\<exists>rep self'. analyze_file out self fp (Inr (replicate n (CHR ''~''))) = Inr (rep, self') \<and>
      segments_found rep = [])"
    using run [of "replicate n (CHR ''~'')"] by (auto simp: parse_segments_terminators)
  have pieces: "\<forall>p\<in>set (str_split content (CHR ''~'')). CHR ''~'' \<notin> set p"
    using str_split_no_sep by blast
  have first: "\<forall>r. py_index (str_split r (CHR ''*'')) 0 = Inr (takeWhile (\<lambda>c. c \<noteq> CHR ''*'') r)"
    by (simp add: py_index_split_0)
  have trims: "\<forall>p. \<exists>a b. p = a @ str_strip p @ b \<and> list_all is_space a \<and>
      list_all is_space b \<and>
      (str_strip p = [] \<or>
       (\<not> is_space (hd (str_strip p)) \<and> \<not> is_space (last (str_strip p))))"
    using str_strip_trims by blast
  show ?thesis
    using str_join_split [of "CHR ''~''" content] pieces parse_segments_alt [of content] trims
      first ids
      run [of content] parse_segments_terminators [of n] empty
    by (intro conjI) assumption+
qed

text \<open>A text with padded, empty and blank records, and a record without delimiter.\<close>

theorem segment_extraction_witness:
  "str_join (CHR ''~'') (str_split '' ISA*00*x ~~GS~ ~ST*278~'' (CHR ''~'')) = '' ISA*00*x ~~GS~ ~ST*278~'' \<and>
   str_split '' ISA*00*x ~~GS~ ~ST*278~'' (CHR ''~'') = ['' ISA*00*x '', '''', ''GS'', '' '', ''ST*278'', ''''] \<and>
   parse_segments '' ISA*00*x ~~GS~ ~ST*278~'' = [''ISA*00*x'', ''GS'', ''ST*278''] \<and>
   extract_ids (parse_segments '' ISA*00*x ~~GS~ ~ST*278~'') example_analyzer =
     Inr (example_analyzer\<lparr>self_segments_found := [''ISA'', ''GS'', ''ST'']\<rparr>)"
proof -
  have p: "parse_segments '' ISA*00*x ~~GS~ ~ST*278~'' = [''ISA*00*x'', ''GS'', ''ST*278'']"
    by code_simp
  have s: "str_split '' ISA*00*x ~~GS~ ~ST*278~'' (CHR ''~'') = ['' ISA*00*x '', '''', ''GS'', '' '', ''ST*278'', '''']"
    by simp
  have f: "self_segments_found example_analyzer = []"
    by (simp add: example_analyzer_def)
  show ?thesis
    using segment_extraction [where content = "'' ISA*00*x ~~GS~ ~ST*278~''"
        and self = example_analyzer and out = utf8_stdout and fp = "''a.edi''" and n = 0]
    by (simp add: p s f str_strip_def is_space_def whitespace_def)
qed

text \<open>
  Claim C8. Joining the extracted records with \<open>~\<close> and extracting again gives the
  same records, hence the same identifiers; the whole run on the rebuilt text returns what
  it returns on the original.
\<close>

theorem extraction_idempotent:
  "parse_segments (str_join (CHR ''~'') (parse_segments content)) = parse_segments content \<and>
   extract_ids (parse_segments (str_join (CHR ''~'') (parse_segments content))) self =
     extract_ids (parse_segments content) self \<and>
   analyze_file out self fp (Inr (str_join (CHR ''~'') (parse_segments content))) =
     analyze_file out self fp (Inr content)"
  by (simp add: parse_segments_join analyze_file_def)

lemma count_missing:
  "length (filter (\<lambda>f. segment f = Some i)
     (map (\<lambda>i. mk_result ERROR ''QRE001'' (''Missing required segment: '' @ i) (Some i))
        (filter (\<lambda>i. i \<notin> set found) req))) =
   (if i \<in> set found then 0 else count_list req i)"
  by (induction req) (auto simp: mk_result_def)

lemma emits_inject: "emits self a = emits self b \<longleftrightarrow> a = b"
proof
  assume "emits self a = emits self b"
  then have "self_results (emits self a) = self_results (emits self b)" by simp
  then show "a = b" by simp
qed simp

section \<open>Pass B: required segments\<close>

text \<open>
  Claim C6. The required-segment pass appends, for the entries of \<open>requiredSegments\<close> in
  their configured order, one ERROR \<open>QRE001\<close> naming the entry for each entry that is
  not among the extracted identifiers, and nothing else. So an identifier that was found
  is named by no finding, an identifier that was not found is named by as many findings
  as the list has entries for it (one, the list being a set), and an empty list adds
  nothing.
\<close>

theorem required_segments_findings:
  "\<exists>new. validate_required_segments self = emits self new \<and>
     new = map (\<lambda>i. mk_result ERROR ''QRE001'' (''Missing required segment: '' @ i) (Some i))
             (filter (\<lambda>i. i \<notin> set (self_segments_found self))
                (requiredSegments (self_config self))) \<and>
     (\<forall>i. length (filter (\<lambda>f. segment f = Some i) new) =
        (if i \<in> set (self_segments_found self) then 0
         else count_list (requiredSegments (self_config self)) i)) \<and>
     (requiredSegments (self_config self) = [] \<longrightarrow> new = [])"
proof -
  let ?new = "map (\<lambda>i. mk_result ERROR ''QRE001'' (''Missing required segment: '' @ i) (Some i))
          (filter (\<lambda>i. i \<notin> set (self_segments_found self))
             (requiredSegments (self_config self)))"
  have "validate_required_segments self = emits self ?new"
    by (simp add: validate_required_segments_def required_loop_eq)
  moreover have "\<forall>i. length (filter (\<lambda>f. segment f = Some i) ?new) =
         (if i \<in> set (self_segments_found self) then 0
          else count_list (requiredSegments (self_config self)) i)"
    using count_missing by blast
  moreover have "requiredSegments (self_config self) = [] \<longrightarrow> ?new = []"
    by simp
  ultimately show ?thesis by blast
qed

text \<open>The default requirement on a document without \<open>BHT\<close>: one finding, naming it.\<close>

theorem required_segments_findings_witness:
  "\<exists>new. validate_required_segments
       (example_analyzer\<lparr>self_segments_found := [''ISA'', ''GS'', ''ST'', ''ST'', ''SE'']\<rparr>) =
     emits (example_analyzer\<lparr>self_segments_found := [''ISA'', ''GS'', ''ST'', ''ST'', ''SE'']\<rparr>)
       new \<and>
     new = [mk_result ERROR ''QRE001'' ''Missing required segment: BHT'' (Some ''BHT'')] \<and>
     length (filter (\<lambda>f. segment f = Some ''BHT'') new) = 1 \<and>
     length (filter (\<lambda>f. segment f = Some ''ST'') new) = 0"
  using required_segments_findings
    [of "example_analyzer\<lparr>self_segments_found := [''ISA'', ''GS'', ''ST'', ''ST'', ''SE'']\<rparr>"]
  by (simp add: example_analyzer_def example_config_def mk_result_def)

section \<open>Prefix tests and elements\<close>

text \<open>
  The passes select segments with \<open>startswith\<close> on an identifier followed by the
  delimiter. Such a prefix holds exactly when the elements of the record start with the
  tokens of the prefix and at least one more element follows.
\<close>

lemma startswith_iff: "str_startswith s p \<longleftrightarrow> (\<exists>t. s = p @ t)"
proof
  assume "str_startswith s p"
  then have "s = p @ drop (length p) s"
    by (metis append_take_drop_id str_startswith_def)
  then show "\<exists>t. s = p @ t" ..
next
  assume "\<exists>t. s = p @ t"
  then show "str_startswith s p" by (auto simp: str_startswith_def)
qed

lemma startswith_needs_sep: "c \<in> set p \<Longrightarrow> c \<notin> set r \<Longrightarrow> \<not> str_startswith r p"
  by (auto simp: startswith_iff)

lemma startswith_one_elem:
  assumes "c \<notin> set i"
  shows "str_startswith s (i @ [c]) \<longleftrightarrow>
    py_index (str_split s c) 0 = Inr i \<and> 2 \<le> length (str_split s c)"
proof
  assume "str_startswith s (i @ [c])"
  then obtain t where "s = i @ c # t" by (auto simp: startswith_iff)
  with assms have "str_split s c = i # str_split t c" by (simp add: str_split_append_sep)
  moreover have "str_split t c \<noteq> []" by (rule str_split_not_Nil)
  ultimately show "py_index (str_split s c) 0 = Inr i \<and> 2 \<le> length (str_split s c)"
    by (cases "str_split t c") simp_all
next
  assume a: "py_index (str_split s c) 0 = Inr i \<and> 2 \<le> length (str_split s c)"
  then obtain y rest where sp: "str_split s c = i # y # rest"
    by (cases "str_split s c"; cases "tl (str_split s c)") (auto simp: py_index_def)
  have "s = str_join c (str_split s c)" by (simp add: str_join_split)
  with sp have "s = (i @ [c]) @ str_join c (y # rest)" by simp
  then show "str_startswith s (i @ [c])" unfolding startswith_iff ..
qed

lemma startswith_two_elems:
  assumes "c \<notin> set i" "c \<notin> set j"
  shows "str_startswith s (i @ c # j @ [c]) \<longleftrightarrow>
    py_index (str_split s c) 0 = Inr i \<and> py_index (str_split s c) 1 = Inr j \<and>
    3 \<le> length (str_split s c)"
proof
  assume "str_startswith s (i @ c # j @ [c])"
  then obtain t where "s = i @ c # (j @ c # t)" by (auto simp: startswith_iff)
  with assms have "str_split s c = i # j # str_split t c" by (simp add: str_split_append_sep)
  moreover have "str_split t c \<noteq> []" by (rule str_split_not_Nil)
  ultimately show "py_index (str_split s c) 0 = Inr i \<and> py_index (str_split s c) 1 = Inr j \<and>
    3 \<le> length (str_split s c)"
    by (cases "str_split t c") (simp_all add: py_index_def)
next
  assume a: "py_index (str_split s c) 0 = Inr i \<and> py_index (str_split s c) 1 = Inr j \<and>
    3 \<le> length (str_split s c)"
  then obtain x y z rest where sp: "str_split s c = x # y # z # rest"
    by (cases "str_split s c"; cases "tl (str_split s c)"; cases "tl (tl (str_split s c))") auto
  with a have xy: "x = i" "y = j" by (simp_all add: py_index_def)
  have "s = str_join c (str_split s c)" by (simp add: str_join_split)
  with sp xy have "s = (i @ c # j @ [c]) @ str_join c (z # rest)" by simp
  then show "str_startswith s (i @ c # j @ [c])" unfolding startswith_iff ..
qed

lemma isa_prefix: "str_startswith s ''ISA*'' \<longleftrightarrow>
    spec_has_identifier ''ISA'' s \<and> 2 \<le> length (str_split s (CHR ''*''))"
  using startswith_one_elem [of "CHR ''*''" "''ISA''" s] by (simp add: spec_has_identifier_def)

lemma st_prefix: "str_startswith s ''ST*'' \<longleftrightarrow>
    spec_has_identifier ''ST'' s \<and> 2 \<le> length (str_split s (CHR ''*''))"
  using startswith_one_elem [of "CHR ''*''" "''ST''" s] by (simp add: spec_has_identifier_def)

lemma dmg_prefix: "str_startswith s ''DMG*'' \<longleftrightarrow>
    spec_has_identifier ''DMG'' s \<and> 2 \<le> length (str_split s (CHR ''*''))"
  using startswith_one_elem [of "CHR ''*''" "''DMG''" s] by (simp add: spec_has_identifier_def)

lemma ref_d9_prefix: "str_startswith s ''REF*D9*'' \<longleftrightarrow>
    spec_has_identifier ''REF'' s \<and> spec_second_element_is ''D9'' s \<and>
    3 \<le> length (str_split s (CHR ''*''))"
  using startswith_two_elems [of "CHR ''*''" "''REF''" "''D9''" s]
  by (simp add: spec_has_identifier_def spec_second_element_is_def)

lemma nm1_il_prefix: "str_startswith s ''NM1*IL*'' \<longleftrightarrow>
    spec_has_identifier ''NM1'' s \<and> spec_second_element_is ''IL'' s \<and>
    3 \<le> length (str_split s (CHR ''*''))"
  using startswith_two_elems [of "CHR ''*''" "''NM1''" "''IL''" s]
  by (simp add: spec_has_identifier_def spec_second_element_is_def)


section \<open>Pass A: envelopes\<close>

lemma check_isa_eq:
  "check_isa segs self =
     emits self
       (if length (filter (\<lambda>s. str_startswith s ''ISA*'') segs) = 0 then
          [mk_result ERROR ''ENV001'' ''Missing ISA segment (Interchange Control Header)''
             (Some ''ISA'')]
        else if 1 < length (filter (\<lambda>s. str_startswith s ''ISA*'') segs) then
          [mk_result WARNING ''ENV002''
             (''Multiple ISA segments found (''
                @ str_nat (length (filter (\<lambda>s. str_startswith s ''ISA*'') segs)) @ '')'')
             (Some ''ISA'')]
        else [])"
  by (simp add: check_isa_def Let_def append_result_emits)

lemma check_gs_eq:
  "check_gs segs self =
     emits self
       (if length (filter (\<lambda>s. str_startswith s ''GS*'') segs) = 0 then
          [mk_result ERROR ''ENV003'' ''Missing GS segment (Functional Group Header)''
             (Some ''GS'')]
        else [])"
  by (simp add: check_gs_def Let_def append_result_emits)

lemma check_st_Nil:
  assumes "filter (\<lambda>s. str_startswith s ''ST*'') segs = []"
  shows "check_st segs self =
     Inr (emits self
       [mk_result ERROR ''ENV004'' ''Missing ST segment (Transaction Set Header)'' (Some ''ST'')])"
  using assms by (simp add: check_st_def append_result_emits)

lemma check_st_Cons:
  assumes "filter (\<lambda>s. str_startswith s ''ST*'') segs = st0 # rest"
  shows "\<exists>e1. py_index (str_split st0 (CHR ''*'')) 1 = Inr e1 \<and>
     check_st segs self =
     Inr (emits self
       ((if e1 \<noteq> ''278'' then
           [mk_result ERROR ''ENV005''
              (''Invalid transaction code: expected '' @ [CHR 0x27] @ ''278''
                 @ [CHR 0x27] @ '', found '' @ [CHR 0x27] @ e1 @ [CHR 0x27])
              (Some ''ST'')]
         else []) @
        (case py_index (str_split st0 (CHR ''*'')) 3 of
           Inl _ \<Rightarrow> []
         | Inr v \<Rightarrow>
             if \<not> str_endswith v ''X215'' then
               [(mk_result WARNING ''ENV006''
                   (''Implementation guide version '' @ [CHR 0x27] @ v @ [CHR 0x27]
                      @ '' may not be 005010X215'')
                   (Some ''ST''))
                \<lparr>context_dict := [(''version'', v)]\<rparr>]
             else [])))"
proof -
  define el where "el = str_split st0 (CHR ''*'')"
  have "st0 \<in> set (filter (\<lambda>s. str_startswith s ''ST*'') segs)"
    using assms by simp
  then have "str_startswith st0 ''ST*''" by simp
  then have len: "2 \<le> length el"
    by (simp add: st_prefix el_def)
  then have e1: "py_index el (Suc 0) = Inr (el ! Suc 0)"
    by (simp add: py_index_def)
  have e3: "py_index el 3 = (if 4 \<le> length el then Inr (el ! 3) else Inl IndexError)"
    by (auto simp: py_index_def)
  have "check_st segs self =
     Inr (emits self
       ((if el ! Suc 0 \<noteq> ''278'' then
           [mk_result ERROR ''ENV005''
              (''Invalid transaction code: expected '' @ [CHR 0x27] @ ''278''
                 @ [CHR 0x27] @ '', found '' @ [CHR 0x27] @ el ! Suc 0 @ [CHR 0x27])
              (Some ''ST'')]
         else []) @
        (case py_index el 3 of
           Inl _ \<Rightarrow> []
         | Inr v \<Rightarrow>
             if \<not> str_endswith v ''X215'' then
               [(mk_result WARNING ''ENV006''
                   (''Implementation guide version '' @ [CHR 0x27] @ v @ [CHR 0x27]
                      @ '' may not be 005010X215'')
                   (Some ''ST''))
                \<lparr>context_dict := [(''version'', v)]\<rparr>]
             else [])))"
    using assms len
    by (simp add: check_st_def Let_def el_def [symmetric] e1 e3 append_result_emits)
  with e1 show ?thesis unfolding el_def by auto
qed

lemma check_st_segment:
  "\<exists>new. check_st segs self = Inr (emits self new) \<and>
     filter (\<lambda>f. segment f = Some ''ISA'') new = [] \<and>
     filter (\<lambda>f. segment f = Some ''ST'') new = new"
proof (cases "filter (\<lambda>s. str_startswith s ''ST*'') segs")
  case Nil
  have "filter (\<lambda>f. segment f = Some ''ISA'')
      [mk_result ERROR ''ENV004'' ''Missing ST segment (Transaction Set Header)'' (Some ''ST'')] = []"
    and "filter (\<lambda>f. segment f = Some ''ST'')
      [mk_result ERROR ''ENV004'' ''Missing ST segment (Transaction Set Header)'' (Some ''ST'')] =
      [mk_result ERROR ''ENV004'' ''Missing ST segment (Transaction Set Header)'' (Some ''ST'')]"
    by (simp_all add: mk_result_def)
  with check_st_Nil [OF Nil, of self] show ?thesis by blast
next
  case (Cons st0 rest)
  from check_st_Cons [OF Cons, of self] obtain e1 where
    "check_st segs self =
     Inr (emits self
       ((if e1 \<noteq> ''278'' then
           [mk_result ERROR ''ENV005''
              (''Invalid transaction code: expected '' @ [CHR 0x27] @ ''278''
                 @ [CHR 0x27] @ '', found '' @ [CHR 0x27] @ e1 @ [CHR 0x27])
              (Some ''ST'')]
         else []) @
        (case py_index (str_split st0 (CHR ''*'')) 3 of
           Inl _ \<Rightarrow> []
         | Inr v \<Rightarrow>
             if \<not> str_endswith v ''X215'' then
               [(mk_result WARNING ''ENV006''
                   (''Implementation guide version '' @ [CHR 0x27] @ v @ [CHR 0x27]
                      @ '' may not be 005010X215'')
                   (Some ''ST''))
                \<lparr>context_dict := [(''version'', v)]\<rparr>]
             else [])))"
    by blast
  then show ?thesis
    by (cases "py_index (str_split st0 (CHR ''*'')) 3") (simp_all add: mk_result_def emits_inject)
qed


lemma validate_envelopes_parts:
  assumes "validateEnvelopes (self_config self)"
    and "check_st segs (check_gs segs (check_isa segs self))
      = Inr (emits (check_gs segs (check_isa segs self)) c)"
  shows "validate_envelopes segs self =
     Inr (emits self
       ((if length (filter (\<lambda>s. str_startswith s ''ISA*'') segs) = 0 then
          [mk_result ERROR ''ENV001'' ''Missing ISA segment (Interchange Control Header)''
             (Some ''ISA'')]
        else if 1 < length (filter (\<lambda>s. str_startswith s ''ISA*'') segs) then
          [mk_result WARNING ''ENV002''
             (''Multiple ISA segments found (''
                @ str_nat (length (filter (\<lambda>s. str_startswith s ''ISA*'') segs)) @ '')'')
             (Some ''ISA'')]
        else []) @
        (if length (filter (\<lambda>s. str_startswith s ''GS*'') segs) = 0 then
          [mk_result ERROR ''ENV003'' ''Missing GS segment (Functional Group Header)''
             (Some ''GS'')]
        else []) @ c))"
  using assms unfolding validate_envelopes_def check_isa_eq check_gs_eq
  by (simp del: length_0_conv)

lemma isa_filter: "filter (\<lambda>s. str_startswith s ''ISA*'') segs =
    filter (\<lambda>s. spec_has_identifier ''ISA'' s \<and> 2 \<le> length (str_split s (CHR ''*''))) segs"
  by (simp add: isa_prefix)

lemma st_filter: "filter (\<lambda>s. str_startswith s ''ST*'') segs =
    filter (\<lambda>s. spec_has_identifier ''ST'' s \<and> 2 \<le> length (str_split s (CHR ''*''))) segs"
  by (simp add: st_prefix)

text \<open>
  Claim C4, as the code has it. With envelope validation on, let \<open>n\<close> be the number of
  segments whose identifier is \<open>ISA\<close> and that have at least one more element, that is,
  the segments that begin with \<open>ISA*\<close>. The findings of the pass about \<open>ISA\<close> are:
  for \<open>n = 0\<close> the one ERROR \<open>ENV001\<close> and no warning; for \<open>n > 1\<close> the one WARNING
  \<open>ENV002\<close>, whose message holds \<open>n\<close>, and no error; for \<open>n = 1\<close> none. A record
  that is the bare identifier \<open>ISA\<close> is not counted.
\<close>

theorem isa_count_findings:
  assumes "validateEnvelopes (self_config self)"
  shows "\<exists>new. validate_envelopes segs self = Inr (emits self new) \<and>
     filter (\<lambda>f. segment f = Some ''ISA'') new =
       (let n = length (filter (\<lambda>s. spec_has_identifier ''ISA'' s
                                   \<and> 2 \<le> length (str_split s (CHR ''*''))) segs)
        in if n = 0 then
             [mk_result ERROR ''ENV001'' ''Missing ISA segment (Interchange Control Header)''
                (Some ''ISA'')]
           else if 1 < n then
             [mk_result WARNING ''ENV002''
                (''Multiple ISA segments found ('' @ str_nat n @ '')'') (Some ''ISA'')]
           else [])"
proof -
  obtain c where c: "check_st segs (check_gs segs (check_isa segs self))
      = Inr (emits (check_gs segs (check_isa segs self)) c)"
    "filter (\<lambda>f. segment f = Some ''ISA'') c = []"
    using check_st_segment by blast
  note run = validate_envelopes_parts [OF assms c(1)]
  show ?thesis
    unfolding run isa_filter [symmetric] Let_def
    using c(2) by (simp add: emits_inject mk_result_def del: length_0_conv)
qed


text \<open>Two \<open>ISA*\<close> segments and a bare \<open>ISA\<close> record: the warning reports 2.\<close>

theorem isa_count_findings_witness:
  "validateEnvelopes (self_config example_analyzer) \<and>
   (\<exists>new. validate_envelopes [''ISA*00'', ''ISA'', ''GS*HC'', ''ISA*01'', ''ST*278'']
        example_analyzer = Inr (emits example_analyzer new) \<and>
      filter (\<lambda>f. segment f = Some ''ISA'') new =
        [mk_result WARNING ''ENV002'' ''Multiple ISA segments found (2)'' (Some ''ISA'')])"
proof -
  have cfg: "validateEnvelopes (self_config example_analyzer)"
    by (simp add: example_analyzer_def example_config_def)
  have n: "length (filter (\<lambda>s. spec_has_identifier ''ISA'' s
              \<and> 2 \<le> length (str_split s (CHR ''*'')))
            [''ISA*00'', ''ISA'', ''GS*HC'', ''ISA*01'', ''ST*278'']) = 2"
    by (simp add: spec_has_identifier_def py_index_def)
  have d: "str_nat 2 = ''2''"
    by (simp add: digit_char_def)
  from isa_count_findings [OF cfg, of "[''ISA*00'', ''ISA'', ''GS*HC'', ''ISA*01'', ''ST*278'']"]
  show ?thesis
    unfolding n Let_def using cfg d by simp
qed

text \<open>
  Counting by identifier alone fails: in \<open>ISA~GS*HC~ST*278~\<close> exactly one segment has
  the identifier \<open>ISA\<close>, and the pass reports the interchange header missing.
\<close>

theorem isa_identifier_counterexample:
  "parse_segments ''ISA~GS*HC~ST*278~'' = [''ISA'', ''GS*HC'', ''ST*278''] \<and>
   length (filter (spec_has_identifier ''ISA'') [''ISA'', ''GS*HC'', ''ST*278'']) = 1 \<and>
   validate_envelopes [''ISA'', ''GS*HC'', ''ST*278''] example_analyzer =
     Inr (emits example_analyzer
       [mk_result ERROR ''ENV001'' ''Missing ISA segment (Interchange Control Header)''
          (Some ''ISA'')])"
  by (simp add: parse_segments_def str_strip_def is_space_def whitespace_def
      spec_has_identifier_def py_index_def validate_envelopes_def example_analyzer_def
      example_config_def check_isa_def check_gs_def check_st_def str_startswith_def
      append_result_def emits_def mk_result_def)

text \<open>
  Claim C5, as the code has it. With envelope validation on, let \<open>st0\<close> be the first
  segment whose identifier is \<open>ST\<close> and that has at least one more element, that is,
  the first segment that begins with \<open>ST*\<close>; the later ones (\<open>rest\<close>) play no part.
  Its second element \<open>e1\<close> exists. The findings of the pass about \<open>ST\<close> are the ERROR
  \<open>ENV005\<close> naming \<open>e1\<close> when \<open>e1\<close> is not \<open>278\<close> (none when it is), followed by
  the WARNING \<open>ENV006\<close> naming the fourth element when there is one and it does not end
  with \<open>X215\<close>; a segment of fewer than four elements gets no finding for the version.
\<close>

theorem first_st_findings:
  assumes "validateEnvelopes (self_config self)"
    and "filter (\<lambda>s. spec_has_identifier ''ST'' s \<and> 2 \<le> length (str_split s (CHR ''*''))) segs
           = st0 # rest"
  shows "\<exists>new e1. validate_envelopes segs self = Inr (emits self new) \<and>
     py_index (str_split st0 (CHR ''*'')) 1 = Inr e1 \<and>
     filter (\<lambda>f. segment f = Some ''ST'') new =
       (if e1 \<noteq> ''278'' then
          [mk_result ERROR ''ENV005''
             (''Invalid transaction code: expected '' @ [CHR 0x27] @ ''278''
                @ [CHR 0x27] @ '', found '' @ [CHR 0x27] @ e1 @ [CHR 0x27])
             (Some ''ST'')]
        else []) @
       (case py_index (str_split st0 (CHR ''*'')) 3 of
          Inl _ \<Rightarrow> []
        | Inr v \<Rightarrow>
            if \<not> str_endswith v ''X215'' then
              [(mk_result WARNING ''ENV006''
                  (''Implementation guide version '' @ [CHR 0x27] @ v @ [CHR 0x27]
                     @ '' may not be 005010X215'')
                  (Some ''ST''))
               \<lparr>context_dict := [(''version'', v)]\<rparr>]
            else [])"
proof -
  from assms(2) have st: "filter (\<lambda>s. str_startswith s ''ST*'') segs = st0 # rest"
    by (simp add: st_filter)
  from check_st_Cons [OF st, of "check_gs segs (check_isa segs self)"]
  obtain e1 where e1: "py_index (str_split st0 (CHR ''*'')) 1 = Inr e1"
    and c: "check_st segs (check_gs segs (check_isa segs self)) =
     Inr (emits (check_gs segs (check_isa segs self))
       ((if e1 \<noteq> ''278'' then
           [mk_result ERROR ''ENV005''
              (''Invalid transaction code: expected '' @ [CHR 0x27] @ ''278''
                 @ [CHR 0x27] @ '', found '' @ [CHR 0x27] @ e1 @ [CHR 0x27])
              (Some ''ST'')]
         else []) @
        (case py_index (str_split st0 (CHR ''*'')) 3 of
           Inl _ \<Rightarrow> []
         | Inr v \<Rightarrow>
             if \<not> str_endswith v ''X215'' then
               [(mk_result WARNING ''ENV006''
                   (''Implementation guide version '' @ [CHR 0x27] @ v @ [CHR 0x27]
                      @ '' may not be 005010X215'')
                   (Some ''ST''))
                \<lparr>context_dict := [(''version'', v)]\<rparr>]
             else [])))"
    by blast
  note run = validate_envelopes_parts [OF assms(1) c]
  show ?thesis
    unfolding run using e1
    by (cases "py_index (str_split st0 (CHR ''*'')) 3")
       (simp_all add: emits_inject mk_result_def del: length_0_conv)
qed


text \<open>Two transaction headers: only the first, of type 837 and version X217, is judged.\<close>

theorem first_st_findings_witness:
  "validateEnvelopes (self_config example_analyzer) \<and>
   filter (\<lambda>s. spec_has_identifier ''ST'' s \<and> 2 \<le> length (str_split s (CHR ''*'')))
     [''ISA*00'', ''GS*HC'', ''ST*837*0001*005010X217'', ''ST*278*0002'']
     = [''ST*837*0001*005010X217'', ''ST*278*0002''] \<and>
   (\<exists>new. validate_envelopes
        [''ISA*00'', ''GS*HC'', ''ST*837*0001*005010X217'', ''ST*278*0002''] example_analyzer
        = Inr (emits example_analyzer new) \<and>
      filter (\<lambda>f. segment f = Some ''ST'') new =
        [mk_result ERROR ''ENV005''
           (''Invalid transaction code: expected '' @ [CHR 0x27] @ ''278''
              @ [CHR 0x27] @ '', found '' @ [CHR 0x27] @ ''837'' @ [CHR 0x27])
           (Some ''ST''),
         (mk_result WARNING ''ENV006''
            (''Implementation guide version '' @ [CHR 0x27] @ ''005010X217'' @ [CHR 0x27]
               @ '' may not be 005010X215'')
            (Some ''ST''))
         \<lparr>context_dict := [(''version'', ''005010X217'')]\<rparr>])"
proof -
  have cfg: "validateEnvelopes (self_config example_analyzer)"
    by (simp add: example_analyzer_def example_config_def)
  have st: "filter (\<lambda>s. spec_has_identifier ''ST'' s \<and> 2 \<le> length (str_split s (CHR ''*'')))
     [''ISA*00'', ''GS*HC'', ''ST*837*0001*005010X217'', ''ST*278*0002'']
     = [''ST*837*0001*005010X217'', ''ST*278*0002'']"
    by (simp add: spec_has_identifier_def py_index_def)
  have el: "str_split ''ST*837*0001*005010X217'' (CHR ''*'') = [''ST'', ''837'', ''0001'', ''005010X217'']"
    by simp
  from first_st_findings [OF cfg st]
  show ?thesis
    unfolding el using cfg st
    by (simp add: py_index_def str_endswith_def)
qed

text \<open>
  The first segment of identifier \<open>ST\<close> is not always the one inspected: in
  \<open>ISA*00~GS*HC~ST~ST*837~\<close> it is the bare record \<open>ST\<close>, which has no second
  element, and the pass still reports the transaction code 837 of the second one.
\<close>

theorem first_st_counterexample:
  "parse_segments ''ISA*00~GS*HC~ST~ST*837~'' = [''ISA*00'', ''GS*HC'', ''ST'', ''ST*837''] \<and>
   find (spec_has_identifier ''ST'') [''ISA*00'', ''GS*HC'', ''ST'', ''ST*837''] = Some ''ST'' \<and>
   py_index (str_split ''ST'' (CHR ''*'')) 1 = Inl IndexError \<and>
   validate_envelopes [''ISA*00'', ''GS*HC'', ''ST'', ''ST*837''] example_analyzer =
     Inr (emits example_analyzer
       [mk_result ERROR ''ENV005''
          (''Invalid transaction code: expected '' @ [CHR 0x27] @ ''278''
             @ [CHR 0x27] @ '', found '' @ [CHR 0x27] @ ''837'' @ [CHR 0x27])
          (Some ''ST'')])"
  by (simp add: parse_segments_def str_strip_def is_space_def whitespace_def
      spec_has_identifier_def py_index_def validate_envelopes_def example_analyzer_def
      example_config_def check_isa_def check_gs_def check_st_def str_startswith_def
      append_result_def emits_def mk_result_def bind_err_def)

section \<open>Pass D: query method\<close>

text \<open>
  Claim C2, as the code has it. The inference looks, in this order, for a segment of
  identifier \<open>REF\<close> whose second element is \<open>D9\<close> and that has a third element (a
  segment beginning with \<open>REF*D9*\<close>): then the method is \<open>ByAuthorizationNumber\<close>
  with one INFO finding, whatever else the list holds; otherwise for a segment of
  identifier \<open>NM1\<close>, second element \<open>IL\<close> and a third element, together with a
  segment of identifier \<open>DMG\<close> that has a second element: then the method is
  \<open>ByMemberDemographics\<close> with one INFO finding; otherwise the method is \<open>Unknown\<close>
  with one WARNING finding. The report of a run that got past its opening \<open>print\<close>
  carries the method and the findings of the state this pass leaves.
\<close>

theorem query_method_inference:
  "detect_query_method segs self =
     (if list_ex (\<lambda>s. spec_has_identifier ''REF'' s \<and> spec_second_element_is ''D9'' s
                      \<and> 3 \<le> length (str_split s (CHR ''*''))) segs then
        emits (self\<lparr>self_query_method := Some ''ByAuthorizationNumber''\<rparr>)
          [mk_result INFO ''QRE005''
             ''Query method: Authorization Number (REF*D9 segment found)'' (Some ''REF'')]
      else if list_ex (\<lambda>s. spec_has_identifier ''NM1'' s \<and> spec_second_element_is ''IL'' s
                      \<and> 3 \<le> length (str_split s (CHR ''*''))) segs
              \<and> list_ex (\<lambda>s. spec_has_identifier ''DMG'' s
                      \<and> 2 \<le> length (str_split s (CHR ''*''))) segs then
        emits (self\<lparr>self_query_method := Some ''ByMemberDemographics''\<rparr>)
          [mk_result INFO ''QRE006''
             ''Query method: Member Demographics (NM1*IL and DMG segments found)''
             (Some ''NM1'')]
      else
        emits (self\<lparr>self_query_method := Some ''Unknown''\<rparr>)
          [mk_result WARNING ''QRE007''
             ''Cannot determine query method (need REF*D9 OR (NM1*IL + DMG))''
             (Some ''REF'')]) \<and>
   (py_print out (''Analyzing X12 278 file: '' @ fp) = Inr () \<longrightarrow>
    (\<exists>rep self' s. analyze_file out self fp (Inr content) = Inr (rep, self') \<and>
       self' = detect_query_method (parse_segments content) s \<and>
       query_method rep = self_query_method self' \<and> results rep = self_results self'))"
proof -
  have "py_print out (''Analyzing X12 278 file: '' @ fp) = Inr () \<longrightarrow>
    (\<exists>rep self' s. analyze_file out self fp (Inr content) = Inr (rep, self') \<and>
       self' = detect_query_method (parse_segments content) s \<and>
       query_method rep = self_query_method self' \<and> results rep = self_results self')"
  proof
    assume printed: "py_print out (''Analyzing X12 278 file: '' @ fp) = Inr ()"
    from analyze_file_chain [OF printed, of content self]
    show "\<exists>rep self' s. analyze_file out self fp (Inr content) = Inr (rep, self') \<and>
       self' = detect_query_method (parse_segments content) s \<and>
       query_method rep = self_query_method self' \<and> results rep = self_results self'"
      by (auto simp: generate_report_def Let_def)
  qed
  then show ?thesis
    unfolding detect_query_method_eq ref_d9_prefix nm1_il_prefix dmg_prefix by simp
qed

text \<open>The three outcomes, the first with all three kinds of segment present.\<close>

theorem query_method_inference_witness:
  "detect_query_method [''NM1*IL*1*DOE'', ''DMG*D8*19800101'', ''REF*D9*AUTH123'']
     example_analyzer =
   emits (example_analyzer\<lparr>self_query_method := Some ''ByAuthorizationNumber''\<rparr>)
     [mk_result INFO ''QRE005''
        ''Query method: Authorization Number (REF*D9 segment found)'' (Some ''REF'')] \<and>
   detect_query_method [''NM1*IL*1*DOE'', ''DMG*D8*19800101''] example_analyzer =
   emits (example_analyzer\<lparr>self_query_method := Some ''ByMemberDemographics''\<rparr>)
     [mk_result INFO ''QRE006''
        ''Query method: Member Demographics (NM1*IL and DMG segments found)''
        (Some ''NM1'')] \<and>
   detect_query_method [''NM1*IL*1*DOE''] example_analyzer =
   emits (example_analyzer\<lparr>self_query_method := Some ''Unknown''\<rparr>)
     [mk_result WARNING ''QRE007''
        ''Cannot determine query method (need REF*D9 OR (NM1*IL + DMG))''
        (Some ''REF'')]"
  using query_method_inference [THEN conjunct1,
      of "[''NM1*IL*1*DOE'', ''DMG*D8*19800101'', ''REF*D9*AUTH123'']" example_analyzer]
    query_method_inference [THEN conjunct1,
      of "[''NM1*IL*1*DOE'', ''DMG*D8*19800101'']" example_analyzer]
    query_method_inference [THEN conjunct1, of "[''NM1*IL*1*DOE'']" example_analyzer]
  by (simp add: spec_has_identifier_def spec_second_element_is_def py_index_def)

text \<open>
  Identifier and second element alone do not decide: the record \<open>REF*D9\<close> has the
  identifier \<open>REF\<close> and the second element \<open>D9\<close>, and the method is \<open>Unknown\<close>.
\<close>

theorem ref_d9_counterexample:
  "parse_segments ''REF*D9~'' = [''REF*D9''] \<and>
   list_ex spec_is_ref_d9 [''REF*D9''] \<and>
   detect_query_method [''REF*D9''] example_analyzer =
     emits (example_analyzer\<lparr>self_query_method := Some ''Unknown''\<rparr>)
       [mk_result WARNING ''QRE007''
          ''Cannot determine query method (need REF*D9 OR (NM1*IL + DMG))''
          (Some ''REF'')]"
  by (simp add: parse_segments_def str_strip_def is_space_def whitespace_def
      spec_is_ref_d9_def spec_has_identifier_def spec_second_element_is_def py_index_def
      detect_query_method_def str_startswith_def append_result_def emits_def)


section \<open>Records the passes do not match\<close>

lemma unmatched_passes:
  assumes "\<not> str_startswith r ''ISA*''" "\<not> str_startswith r ''GS*''"
    "\<not> str_startswith r ''ST*''" "\<not> str_startswith r ''BHT*''"
    "\<not> str_startswith r ''UM*''" "\<not> str_startswith r ''HCR*''"
    "\<not> str_startswith r ''REF*D9*''" "\<not> str_startswith r ''NM1*IL*''"
    "\<not> str_startswith r ''DMG*''"
  shows "validate_envelopes (xs @ r # ys) self = validate_envelopes (xs @ ys) self"
    and "validate_qre_requirements (xs @ r # ys) self = validate_qre_requirements (xs @ ys) self"
    and "detect_query_method (xs @ r # ys) self = detect_query_method (xs @ ys) self"
proof -
  have "check_isa (xs @ r # ys) = check_isa (xs @ ys)"
    "check_gs (xs @ r # ys) = check_gs (xs @ ys)"
    "check_st (xs @ r # ys) = check_st (xs @ ys)"
    using assms(1-3) by (simp_all add: fun_eq_iff check_isa_def check_gs_def check_st_def)
  then show "validate_envelopes (xs @ r # ys) self = validate_envelopes (xs @ ys) self"
    by (simp add: validate_envelopes_def)
  have "check_bht (xs @ r # ys) = check_bht (xs @ ys)"
    "check_um (xs @ r # ys) = check_um (xs @ ys)"
    "check_hcr (xs @ r # ys) = check_hcr (xs @ ys)"
    using assms(4-6) by (simp_all add: fun_eq_iff check_bht_def check_um_def check_hcr_def)
  then show "validate_qre_requirements (xs @ r # ys) self
      = validate_qre_requirements (xs @ ys) self"
    by (simp add: validate_qre_requirements_def)
  show "detect_query_method (xs @ r # ys) self = detect_query_method (xs @ ys) self"
    using assms(7-9) by (simp add: detect_query_method_def list_ex_iff)
qed

lemma bare_unmatched:
  assumes "CHR ''*'' \<notin> set r \<or> r = ''REF*D9''"
  shows "\<not> str_startswith r ''ISA*''" "\<not> str_startswith r ''GS*''"
    "\<not> str_startswith r ''ST*''" "\<not> str_startswith r ''BHT*''"
    "\<not> str_startswith r ''UM*''" "\<not> str_startswith r ''HCR*''"
    "\<not> str_startswith r ''REF*D9*''" "\<not> str_startswith r ''NM1*IL*''"
    "\<not> str_startswith r ''DMG*''"
proof -
  have "\<not> str_startswith r ''ISA*'' \<and> \<not> str_startswith r ''GS*'' \<and>
    \<not> str_startswith r ''ST*'' \<and> \<not> str_startswith r ''BHT*'' \<and>
    \<not> str_startswith r ''UM*'' \<and> \<not> str_startswith r ''HCR*'' \<and>
    \<not> str_startswith r ''REF*D9*'' \<and> \<not> str_startswith r ''NM1*IL*'' \<and>
    \<not> str_startswith r ''DMG*''"
  proof (cases "r = ''REF*D9''")
    case True
    then show ?thesis by (simp add: str_startswith_def)
  next
    case False
    with assms have bare: "CHR ''*'' \<notin> set r" by simp
    show ?thesis
      by (intro conjI) (rule startswith_needs_sep [OF _ bare], simp)+
  qed
  then show "\<not> str_startswith r ''ISA*''" "\<not> str_startswith r ''GS*''"
    "\<not> str_startswith r ''ST*''" "\<not> str_startswith r ''BHT*''"
    "\<not> str_startswith r ''UM*''" "\<not> str_startswith r ''HCR*''"
    "\<not> str_startswith r ''REF*D9*''" "\<not> str_startswith r ''NM1*IL*''"
    "\<not> str_startswith r ''DMG*''"
    by blast+
qed

lemma check_um_eq:
  "check_um segs self =
     emits self
       (if filter (\<lambda>s. str_startswith s ''UM*'') segs = [] then
          [mk_result WARNING ''QRE003''
             ''UM segment (Health Care Services Review Information) is recommended for QRE''
             (Some ''UM'')]
        else [])"
  by (simp add: check_um_def Let_def append_result_emits)

lemma only_bare_um:
  assumes "minimalDataPrinciple (self_config self)"
    and "filter (\<lambda>s. str_startswith s ''UM*'') segs = []"
  shows "\<exists>new. validate_qre_requirements segs self = Inr (emits self new) \<and>
     mk_result WARNING ''QRE003''
       ''UM segment (Health Care Services Review Information) is recommended for QRE''
       (Some ''UM'') \<in> set new"
proof -
  obtain a where a: "check_bht segs self = Inr (emits self a)"
    using check_bht_emits by blast
  obtain c where c: "check_hcr segs (check_um segs (emits self a))
      = Inr (emits (check_um segs (emits self a)) c)"
    using check_hcr_emits by blast
  from assms a c show ?thesis
    by (simp add: validate_qre_requirements_def check_um_eq emits_inject)
qed

lemma only_bare_isa:
  assumes "validateEnvelopes (self_config self)"
    and "filter (\<lambda>s. str_startswith s ''ISA*'') segs = []"
  shows "\<exists>new. validate_envelopes segs self = Inr (emits self new) \<and>
     mk_result ERROR ''ENV001'' ''Missing ISA segment (Interchange Control Header)''
       (Some ''ISA'') \<in> set new"
proof -
  obtain c where c: "check_st segs (check_gs segs (check_isa segs self))
      = Inr (emits (check_gs segs (check_isa segs self)) c)"
    using check_st_emits by blast
  note run = validate_envelopes_parts [OF assms(1) c]
  show ?thesis unfolding run using assms(2) by (simp add: emits_inject)
qed

lemma um_filter_bare:
  assumes "\<forall>s\<in>set segs. spec_has_identifier i s \<longrightarrow> CHR ''*'' \<notin> set s"
    and "CHR ''*'' \<notin> set i"
  shows "filter (\<lambda>s. str_startswith s (i @ ''*'')) segs = []"
proof -
  have "\<not> str_startswith s (i @ ''*'')" if "s \<in> set segs" for s
  proof
    assume p: "str_startswith s (i @ ''*'')"
    with assms(2) have "spec_has_identifier i s"
      using startswith_one_elem [of "CHR ''*''" i s] by (simp add: spec_has_identifier_def)
    with assms(1) that have "CHR ''*'' \<notin> set s" by blast
    moreover from p have "CHR ''*'' \<in> set s" by (auto simp: startswith_iff)
    ultimately show False by blast
  qed
  then show ?thesis by (simp add: filter_empty_conv)
qed

text \<open>
  Claim C10. Let \<open>r\<close> be a record without field delimiter (a bare identifier such as
  \<open>ISA\<close>, \<open>UM\<close> or \<open>DMG\<close>), or the record \<open>REF*D9\<close>, anywhere in a segment
  list. Its identifier (the record itself when it has no delimiter) is appended to
  \<open>segments_found\<close>, and the required-segment pass then reports no finding naming it.
  The envelope pass, the minimal-data pass and the query-method inference return what
  they return on the list without \<open>r\<close>: they select by \<open>startswith\<close> on an identifier
  followed by \<open>*\<close> (for the authorization number, on \<open>REF*D9*\<close>), which \<open>r\<close> never
  satisfies. So when every record of identifier \<open>UM\<close> is bare, the minimal-data pass
  still appends the WARNING \<open>QRE003\<close>, and when every record of identifier \<open>ISA\<close> is
  bare, the envelope pass still appends the ERROR \<open>ENV001\<close>.
\<close>

theorem bare_identifier_records:
  assumes "r \<noteq> []" and "CHR ''*'' \<notin> set r \<or> r = ''REF*D9''"
  shows
    "(\<exists>s'. extract_ids (xs @ r # ys) self = Inr s' \<and>
        takeWhile (\<lambda>c. c \<noteq> CHR ''*'') r \<in> set (self_segments_found s') \<and>
        (\<exists>new. validate_required_segments s' = emits s' new \<and>
           filter (\<lambda>f. segment f = Some (takeWhile (\<lambda>c. c \<noteq> CHR ''*'') r)) new = [])) \<and>
     (CHR ''*'' \<notin> set r \<longrightarrow> takeWhile (\<lambda>c. c \<noteq> CHR ''*'') r = r) \<and>
     validate_envelopes (xs @ r # ys) self = validate_envelopes (xs @ ys) self \<and>
     validate_qre_requirements (xs @ r # ys) self = validate_qre_requirements (xs @ ys) self \<and>
     detect_query_method (xs @ r # ys) self = detect_query_method (xs @ ys) self \<and>
     (minimalDataPrinciple (self_config self) \<and>
      (\<forall>s\<in>set segs. spec_has_identifier ''UM'' s \<longrightarrow> CHR ''*'' \<notin> set s) \<longrightarrow>
      (\<exists>new. validate_qre_requirements segs self = Inr (emits self new) \<and>
         mk_result WARNING ''QRE003''
           ''UM segment (Health Care Services Review Information) is recommended for QRE''
           (Some ''UM'') \<in> set new)) \<and>
     (validateEnvelopes (self_config self) \<and>
      (\<forall>s\<in>set segs. spec_has_identifier ''ISA'' s \<longrightarrow> CHR ''*'' \<notin> set s) \<longrightarrow>
      (\<exists>new. validate_envelopes segs self = Inr (emits self new) \<and>
         mk_result ERROR ''ENV001'' ''Missing ISA segment (Interchange Control Header)''
           (Some ''ISA'') \<in> set new))"
proof -
  let ?id = "takeWhile (\<lambda>c. c \<noteq> CHR ''*'') r"
  let ?s' = "self\<lparr>self_segments_found := self_segments_found self
      @ map (takeWhile (\<lambda>x. x \<noteq> CHR ''*'')) (filter (\<lambda>s. s \<noteq> []) (xs @ r # ys))\<rparr>"
  have ex: "extract_ids (xs @ r # ys) self = Inr ?s'"
    by (rule extract_ids_eq)
  have mem: "?id \<in> set (self_segments_found ?s')"
    using assms(1) by simp
  have req: "\<exists>new. validate_required_segments ?s' = emits ?s' new \<and>
      filter (\<lambda>f. segment f = Some ?id) new = []"
  proof -
    let ?new = "map (\<lambda>i. mk_result ERROR ''QRE001'' (''Missing required segment: '' @ i) (Some i))
       (filter (\<lambda>i. i \<notin> set (self_segments_found ?s')) (requiredSegments (self_config ?s')))"
    have "validate_required_segments ?s' = emits ?s' ?new"
      by (simp only: validate_required_segments_def required_loop_eq Let_def)
    moreover have "length (filter (\<lambda>f. segment f = Some ?id) ?new) = 0"
      using mem by (simp only: count_missing if_True)
    ultimately show ?thesis by blast
  qed
  have first: "\<exists>s'. extract_ids (xs @ r # ys) self = Inr s' \<and>
        ?id \<in> set (self_segments_found s') \<and>
        (\<exists>new. validate_required_segments s' = emits s' new \<and>
           filter (\<lambda>f. segment f = Some ?id) new = [])"
    using ex mem req by blast
  have whole: "CHR ''*'' \<notin> set r \<longrightarrow> ?id = r"
    by (auto simp: takeWhile_eq_all_conv)
  note un = bare_unmatched [OF assms(2)]
  note passes = unmatched_passes [OF un, of xs ys self]
  have um: "minimalDataPrinciple (self_config self) \<and>
      (\<forall>s\<in>set segs. spec_has_identifier ''UM'' s \<longrightarrow> CHR ''*'' \<notin> set s) \<longrightarrow>
      (\<exists>new. validate_qre_requirements segs self = Inr (emits self new) \<and>
         mk_result WARNING ''QRE003''
           ''UM segment (Health Care Services Review Information) is recommended for QRE''
           (Some ''UM'') \<in> set new)"
    using only_bare_um [of self segs] um_filter_bare [of segs "''UM''"] by simp
  have isa: "validateEnvelopes (self_config self) \<and>
      (\<forall>s\<in>set segs. spec_has_identifier ''ISA'' s \<longrightarrow> CHR ''*'' \<notin> set s) \<longrightarrow>
      (\<exists>new. validate_envelopes segs self = Inr (emits self new) \<and>
         mk_result ERROR ''ENV001'' ''Missing ISA segment (Interchange Control Header)''
           (Some ''ISA'') \<in> set new)"
    using only_bare_isa [of self segs] um_filter_bare [of segs "''ISA''"] by simp
  from first whole passes um isa show ?thesis
    by (intro conjI) assumption+
qed


text \<open>A document whose \<open>ISA\<close> and \<open>UM\<close> records are bare.\<close>

theorem bare_identifier_records_witness:
  "''UM'' \<noteq> [] \<and> CHR ''*'' \<notin> set ''UM'' \<and>
   parse_segments ''ISA~GS*HC~UM~ST*278~'' = [''ISA'', ''GS*HC'', ''UM'', ''ST*278''] \<and>
   (\<exists>s'. extract_ids [''ISA'', ''GS*HC'', ''UM'', ''ST*278''] example_analyzer = Inr s' \<and>
      self_segments_found s' = [''ISA'', ''GS'', ''UM'', ''ST''] \<and>
      ''UM'' \<in> set (self_segments_found s')) \<and>
   validate_envelopes [''ISA'', ''GS*HC'', ''UM'', ''ST*278''] example_analyzer =
     validate_envelopes [''ISA'', ''GS*HC'', ''ST*278''] example_analyzer \<and>
   validate_qre_requirements [''ISA'', ''GS*HC'', ''UM'', ''ST*278''] example_analyzer =
     validate_qre_requirements [''ISA'', ''GS*HC'', ''ST*278''] example_analyzer \<and>
   detect_query_method [''ISA'', ''GS*HC'', ''UM'', ''ST*278''] example_analyzer =
     detect_query_method [''ISA'', ''GS*HC'', ''ST*278''] example_analyzer \<and>
   (\<exists>new. validate_qre_requirements [''ISA'', ''GS*HC'', ''UM'', ''ST*278''] example_analyzer
        = Inr (emits example_analyzer new) \<and>
      mk_result WARNING ''QRE003''
        ''UM segment (Health Care Services Review Information) is recommended for QRE''
        (Some ''UM'') \<in> set new) \<and>
   (\<exists>new. validate_envelopes [''ISA'', ''GS*HC'', ''UM'', ''ST*278''] example_analyzer
        = Inr (emits example_analyzer new) \<and>
      mk_result ERROR ''ENV001'' ''Missing ISA segment (Interchange Control Header)''
        (Some ''ISA'') \<in> set new)"
proof -
  have h1: "''UM'' \<noteq> []" and h2: "CHR ''*'' \<notin> set ''UM'' \<or> ''UM'' = ''REF*D9''"
    by simp_all
  have cfg: "minimalDataPrinciple (self_config example_analyzer)"
    "validateEnvelopes (self_config example_analyzer)"
    by (simp_all add: example_analyzer_def example_config_def)
  have bare: "\<forall>s\<in>set [''ISA'', ''GS*HC'', ''UM'', ''ST*278''].
      spec_has_identifier ''UM'' s \<longrightarrow> CHR ''*'' \<notin> set s"
    "\<forall>s\<in>set [''ISA'', ''GS*HC'', ''UM'', ''ST*278''].
      spec_has_identifier ''ISA'' s \<longrightarrow> CHR ''*'' \<notin> set s"
    by (simp_all add: spec_has_identifier_def py_index_def)
  have p: "parse_segments ''ISA~GS*HC~UM~ST*278~'' = [''ISA'', ''GS*HC'', ''UM'', ''ST*278'']"
    by (simp add: parse_segments_def str_strip_def is_space_def whitespace_def)
  have ids: "\<exists>s'. extract_ids [''ISA'', ''GS*HC'', ''UM'', ''ST*278''] example_analyzer = Inr s' \<and>
      self_segments_found s' = [''ISA'', ''GS'', ''UM'', ''ST''] \<and>
      ''UM'' \<in> set (self_segments_found s')"
    by (simp add: extract_ids_eq example_analyzer_def)
  note t = bare_identifier_records [OF h1 h2, of "[''ISA'', ''GS*HC'']" "[''ST*278'']"
      example_analyzer "[''ISA'', ''GS*HC'', ''UM'', ''ST*278'']"]
  note t3 = t [THEN conjunct2, THEN conjunct2, THEN conjunct1]
  note t4 = t [THEN conjunct2, THEN conjunct2, THEN conjunct2, THEN conjunct1]
  note t5 = t [THEN conjunct2, THEN conjunct2, THEN conjunct2, THEN conjunct2, THEN conjunct1]
  note t6 = t [THEN conjunct2, THEN conjunct2, THEN conjunct2, THEN conjunct2, THEN conjunct2,
      THEN conjunct1, THEN mp, OF conjI [OF cfg(1) bare(1)]]
  note t7 = t [THEN conjunct2, THEN conjunct2, THEN conjunct2, THEN conjunct2, THEN conjunct2,
      THEN conjunct2, THEN mp, OF conjI [OF cfg(2) bare(2)]]
  have a3: "validate_envelopes [''ISA'', ''GS*HC'', ''UM'', ''ST*278''] example_analyzer =
       validate_envelopes [''ISA'', ''GS*HC'', ''ST*278''] example_analyzer"
    using t3 by (simp only: append.simps)
  have a4: "validate_qre_requirements [''ISA'', ''GS*HC'', ''UM'', ''ST*278''] example_analyzer =
       validate_qre_requirements [''ISA'', ''GS*HC'', ''ST*278''] example_analyzer"
    using t4 by (simp only: append.simps)
  have a5: "detect_query_method [''ISA'', ''GS*HC'', ''UM'', ''ST*278''] example_analyzer =
       detect_query_method [''ISA'', ''GS*HC'', ''ST*278''] example_analyzer"
    using t5 by (simp only: append.simps)
  show ?thesis
    using h1 p ids a3 a4 a5 t6 t7 by (intro conjI) (assumption | simp)+
qed

end
